theory Spec2Isabelle
  imports Main
begin

section \<open>Stock ledger and point-of-sale routes of sc4x\<close>

text \<open>
  A shallow embedding of the routes of the server that write stock, movements, alerts
  and sales: \<^verbatim>\<open>POST /adjust\<close>, \<^verbatim>\<open>POST /bulk-adjust\<close> and
  \<^verbatim>\<open>PUT /alerts/:id/acknowledge\<close> (src/server/routes/dashboard.js), \<^verbatim>\<open>POST /\<close>
  (create sale) and \<^verbatim>\<open>POST /:id/refund\<close> (src/server/routes/sales.js), over the
  tables of src/server/database/schema.sql.

  A table is the list of its rows in insertion order. \<^verbatim>\<open>database.get\<close> returns the
  first row that matches (\<open>find\<close>), an \<^verbatim>\<open>UPDATE ... WHERE\<close> rewrites every row that
  matches (\<open>map\<close>), an \<^verbatim>\<open>INSERT\<close> appends a row. Only the columns these routes read
  or write are kept. Quantities and identifiers are JavaScript numbers holding integers
  (the validators demand \<^verbatim>\<open>isInt\<close>); a number is modelled by the integer it holds,
  and \<^verbatim>\<open>+\<close> and \<^verbatim>\<open>-\<close> on quantities round as IEEE doubles do (see \<open>js_num\<close> below).
  Money amounts are modelled as \<open>int\<close> (an amount in minor units, computed exactly);
  no property below depends on them. A string is a list of characters with codes below
  256; an optional field of a request body is an \<open>option\<close>, \<open>None\<close> when it is absent.
\<close>

subsection \<open>Tables\<close>

datatype movement_type = M_in | M_out | M_adjustment | M_sale | M_return | M_damaged

datatype sale_status = Pending | Completed | Cancelled | Refunded

datatype alert_status = Active | Acknowledged | Resolved

record product =
  p_id :: int
  p_name :: string
  p_min_stock_level :: int
  p_is_active :: bool

record stock_row =
  s_product_id :: int
  s_variant_id :: "int option"
  s_quantity :: int
  s_updated_by :: "int option"

record stock_movement =
  m_product_id :: int
  m_variant_id :: "int option"
  m_movement_type :: movement_type
  m_quantity_change :: int
  m_quantity_before :: int
  m_quantity_after :: int
  m_reference_id :: "int option"
  m_reference_type :: "string option"
  m_notes :: "string option"
  m_created_by :: int

record sale =
  sl_id :: int
  sl_sale_number :: string
  sl_total_amount :: int
  sl_tax_amount :: int
  sl_discount_amount :: int
  sl_payment_method :: string
  sl_status :: sale_status
  sl_cashier_id :: int
  sl_customer_name :: "string option"
  sl_notes :: "string option"

record sale_item =
  si_id :: int
  si_sale_id :: int
  si_product_id :: int
  si_variant_id :: "int option"
  si_quantity :: int
  si_unit_price :: int
  si_total_price :: int
  si_discount_amount :: int

record low_stock_alert =
  a_id :: int
  a_product_id :: int
  a_variant_id :: "int option"
  a_current_stock :: int
  a_min_stock_level :: int
  a_alert_status :: alert_status
  a_acknowledged_by :: "int option"

record db =
  products :: "product list"
  stock :: "stock_row list"
  stock_movements :: "stock_movement list"
  sales :: "sale list"
  sale_items :: "sale_item list"
  low_stock_alerts :: "low_stock_alert list"

text \<open>What a route answers with when it does not succeed.\<close>

datatype error =
    ValidationFailed
  | ProductNotFound
  | StockRecordNotFound
  | SaleProductNotFound int
  | InsufficientStock string int int
  | SaleNumberExists
  | SaleNotFound
  | AlertNotFound
  | ServerError

subsection \<open>JavaScript numbers and strings\<close>

text \<open>
  A quantity is a JavaScript number, an IEEE double that holds an integer. Every integer
  of magnitude at most \<open>2 ^ 53\<close> is such a number. Beyond that a double keeps 53
  significant bits: the result of \<^verbatim>\<open>+\<close> or \<^verbatim>\<open>-\<close> is the nearest integer of that form,
  and of two equally near ones the one whose 53-bit significand is even. \<open>shift_of n\<close>
  is the number of low bits a magnitude \<open>n\<close> loses. The exponent range of a double is
  not modelled (no quantity at or beyond \<open>2 ^ 1024\<close>).
\<close>

function shift_of :: "nat \<Rightarrow> nat" where
  "shift_of n = (if n < 2 ^ 53 then 0 else Suc (shift_of (n div 2)))"
  by pat_completeness auto
termination
  by (relation "measure id") auto

declare shift_of.simps [simp del]

definition js_num :: "int \<Rightarrow> int" where
  "js_num x =
     (let n = nat \<bar>x\<bar>;
          s = shift_of n;
          q = n div 2 ^ s;
          r = n mod 2 ^ s;
          m = (if 2 ^ s < 2 * r \<or> (2 * r = 2 ^ s \<and> odd q) then Suc q else q) * 2 ^ s
      in if x < 0 then - int m else int m)"

text \<open>\<^verbatim>\<open>a + b\<close> and \<^verbatim>\<open>a - b\<close> on numbers.\<close>

definition js_add :: "int \<Rightarrow> int \<Rightarrow> int" where
  "js_add a b = js_num (a + b)"

definition js_sub :: "int \<Rightarrow> int \<Rightarrow> int" where
  "js_sub a b = js_num (a - b)"

text \<open>
  The sanitizer \<^verbatim>\<open>.trim()\<close> of a validation chain removes the white space at both
  ends of a string field before the handler reads it; \<^verbatim>\<open>.optional()\<close> leaves an absent
  field alone. The white space characters with codes below 256 are tab, line feed,
  vertical tab, form feed, carriage return, space and no-break space.
\<close>

definition is_space :: "char \<Rightarrow> bool" where
  "is_space c = (c \<in> set [CHR 0x09, CHR 0x0A, CHR 0x0B, CHR 0x0C, CHR 0x0D, CHR 0x20, CHR 0xA0])"

definition trim :: "string \<Rightarrow> string" where
  "trim s = rev (dropWhile is_space (rev (dropWhile is_space s)))"

definition optional_trim :: "string option \<Rightarrow> string option" where
  "optional_trim s = map_option trim s"

subsection \<open>Statements of the routes\<close>

text \<open>\<^verbatim>\<open>variant_id || null\<close>: an absent variant and the falsy number 0 both become NULL.\<close>

definition or_null :: "int option \<Rightarrow> int option" where
  "or_null v = (if v = Some 0 then None else v)"

text \<open>A string in a condition: an absent and an empty string are falsy.\<close>

definition truthy :: "string option \<Rightarrow> bool" where
  "truthy s = (s \<noteq> None \<and> s \<noteq> Some [])"

text \<open>\<^verbatim>\<open>notes || null\<close>\<close>

definition str_or_null :: "string option \<Rightarrow> string option" where
  "str_or_null s = (if truthy s then s else None)"

text \<open>\<^verbatim>\<open>notes || 'Bulk adjustment'\<close>, \<^verbatim>\<open>reason || 'No reason provided'\<close>, \<^verbatim>\<open>sale.notes || ''\<close>\<close>

definition str_or :: "string option \<Rightarrow> string \<Rightarrow> string" where
  "str_or s dflt = (case s of None \<Rightarrow> dflt | Some x \<Rightarrow> if x = [] then dflt else x)"

text \<open>The next value of an \<^verbatim>\<open>INTEGER PRIMARY KEY AUTOINCREMENT\<close> column.\<close>

definition next_id :: "int list \<Rightarrow> int" where
  "next_id ids = fold max ids 0 + 1"

text \<open>\<^verbatim>\<open>SELECT * FROM products WHERE id = ? AND is_active = 1\<close>\<close>

definition get_active_product :: "db \<Rightarrow> int \<Rightarrow> product option" where
  "get_active_product d pid = find (\<lambda>p. p_id p = pid \<and> p_is_active p) (products d)"

text \<open>\<^verbatim>\<open>SELECT * FROM stock WHERE product_id = ? AND variant_id IS ?\<close>\<close>

definition stock_matches :: "int \<Rightarrow> int option \<Rightarrow> stock_row \<Rightarrow> bool" where
  "stock_matches pid vid s = (s_product_id s = pid \<and> s_variant_id s = vid)"

definition get_stock :: "db \<Rightarrow> int \<Rightarrow> int option \<Rightarrow> stock_row option" where
  "get_stock d pid vid = find (stock_matches pid vid) (stock d)"

text \<open>\<^verbatim>\<open>UPDATE stock SET quantity = ?, updated_by = ? WHERE product_id = ? AND variant_id IS ?\<close>\<close>

definition update_stock :: "db \<Rightarrow> int \<Rightarrow> int \<Rightarrow> int \<Rightarrow> int option \<Rightarrow> db" where
  "update_stock d newQuantity uid pid vid =
     d\<lparr>stock := map (\<lambda>s. if stock_matches pid vid s
                           then s\<lparr>s_quantity := newQuantity, s_updated_by := Some uid\<rparr>
                           else s) (stock d)\<rparr>"

text \<open>\<^verbatim>\<open>INSERT INTO stock_movements (...) VALUES (...)\<close>\<close>

definition insert_movement :: "db \<Rightarrow> stock_movement \<Rightarrow> db" where
  "insert_movement d m = d\<lparr>stock_movements := stock_movements d @ [m]\<rparr>"

text \<open>\<^verbatim>\<open>SELECT id FROM low_stock_alerts WHERE product_id = ? AND variant_id IS ? AND alert_status = "active"\<close>\<close>

definition alert_matches :: "int \<Rightarrow> int option \<Rightarrow> low_stock_alert \<Rightarrow> bool" where
  "alert_matches pid vid a =
     (a_product_id a = pid \<and> a_variant_id a = vid \<and> a_alert_status a = Active)"

definition get_active_alert :: "db \<Rightarrow> int \<Rightarrow> int option \<Rightarrow> low_stock_alert option" where
  "get_active_alert d pid vid = find (alert_matches pid vid) (low_stock_alerts d)"

text \<open>\<^verbatim>\<open>INSERT INTO low_stock_alerts (product_id, variant_id, current_stock, min_stock_level)\<close>;
  the status column defaults to active.\<close>

definition insert_alert :: "db \<Rightarrow> int \<Rightarrow> int option \<Rightarrow> int \<Rightarrow> int \<Rightarrow> db" where
  "insert_alert d pid vid current minLevel =
     d\<lparr>low_stock_alerts := low_stock_alerts d @
        [\<lparr>a_id = next_id (map a_id (low_stock_alerts d)), a_product_id = pid,
          a_variant_id = vid, a_current_stock = current, a_min_stock_level = minLevel,
          a_alert_status = Active, a_acknowledged_by = None\<rparr>]\<rparr>"

text \<open>\<^verbatim>\<open>UPDATE low_stock_alerts SET alert_status = "resolved" WHERE product_id = ? AND variant_id IS ? AND alert_status = "active"\<close>\<close>

definition resolve_alerts :: "db \<Rightarrow> int \<Rightarrow> int option \<Rightarrow> db" where
  "resolve_alerts d pid vid =
     d\<lparr>low_stock_alerts := map (\<lambda>a. if alert_matches pid vid a
                                      then a\<lparr>a_alert_status := Resolved\<rparr> else a)
                                (low_stock_alerts d)\<rparr>"

text \<open>
  Modelled from the spec: \<^verbatim>\<open>database.beginTransaction\<close>, \<^verbatim>\<open>commit\<close> and \<^verbatim>\<open>rollback\<close>
  belong to config/database, which is not among the sources. Every route uses them in
  one shape, \<^verbatim>\<open>begin; try { body; commit } catch (e) { rollback; throw e }\<close>, and the
  specification asks that a unit of work roll back on any error exit and commit only on
  full success. The body answers \<open>Inl\<close> with the error it throws and the tables as they
  were at the throw, or \<open>Inr\<close> with its result and the tables it wrote.
\<close>

definition in_transaction ::
  "db \<Rightarrow> (db \<Rightarrow> (error \<times> db) + ('a \<times> db)) \<Rightarrow> (error + 'a) \<times> db" where
  "in_transaction d body =
     (case body d of
        Inl (e, d') \<Rightarrow> (Inl e, d)
      | Inr (r, d') \<Rightarrow> (Inr r, d'))"

subsection \<open>Manual adjustment: \<^verbatim>\<open>router.post('/adjust')\<close>\<close>

text \<open>The validator admits exactly the three adjustment types \<^verbatim>\<open>in\<close>, \<^verbatim>\<open>out\<close>,
  \<^verbatim>\<open>adjustment\<close>; the value is stored unchanged as the movement type. The quantity of
  a request is a JSON number. (\<^verbatim>\<open>isInt\<close> reads the printed value, so it also lets a
  string of digits through; the request type leaves that out. On such a string \<^verbatim>\<open>-\<close>,
  \<^verbatim>\<open>Math.max\<close> and the comparisons convert to the number it prints, while the \<^verbatim>\<open>+\<close> of
  type \<^verbatim>\<open>in\<close> appends it to the printed current quantity.)\<close>

datatype adjustment_type = Adj_in | Adj_out | Adj_adjustment

fun movement_of :: "adjustment_type \<Rightarrow> movement_type" where
  "movement_of Adj_in = M_in"
| "movement_of Adj_out = M_out"
| "movement_of Adj_adjustment = M_adjustment"

record adjust_request =
  ar_product_id :: int
  ar_variant_id :: "int option"
  ar_adjustment_type :: adjustment_type
  ar_quantity :: int
  ar_notes :: "string option"

text \<open>The \<^verbatim>\<open>data\<close> of the answer: the adjustment, and \<^verbatim>\<open>stock.quantity\<close> as read back
  after the commit.\<close>

record adjust_response =
  adj_type :: adjustment_type
  adj_quantity_change :: int
  adj_previous_quantity :: int
  adj_new_quantity :: int
  adj_stock_quantity :: "int option"

text \<open>The \<^verbatim>\<open>switch (adjustment_type)\<close> of both adjustment routes.\<close>

fun calc_new_quantity :: "adjustment_type \<Rightarrow> int \<Rightarrow> int \<Rightarrow> int" where
  "calc_new_quantity Adj_in currentQuantity quantity = js_add currentQuantity quantity"
| "calc_new_quantity Adj_out currentQuantity quantity = max 0 (js_sub currentQuantity quantity)"
| "calc_new_quantity Adj_adjustment currentQuantity quantity = quantity"

text \<open>The low-stock block of both adjustment routes: open an alert when the new quantity
  is at or below the minimum and none is active, resolve the active ones otherwise.\<close>

definition adjust_alerts :: "db \<Rightarrow> int \<Rightarrow> int option \<Rightarrow> int \<Rightarrow> int \<Rightarrow> db" where
  "adjust_alerts d pid vid newQuantity minLevel =
     (if newQuantity \<le> minLevel
      then (case get_active_alert d pid vid of
              None \<Rightarrow> insert_alert d pid vid newQuantity minLevel
            | Some existingAlert \<Rightarrow> d)
      else resolve_alerts d pid vid)"

text \<open>The three writes of both adjustment routes, in the order of the source: the stock
  row, the movement (its change is \<^verbatim>\<open>quantityChange = newQuantity - currentQuantity\<close>), the
  alerts.\<close>

definition adjust_writes ::
  "db \<Rightarrow> int \<Rightarrow> int \<Rightarrow> int option \<Rightarrow> adjustment_type \<Rightarrow> int \<Rightarrow> int \<Rightarrow>
     string option \<Rightarrow> int \<Rightarrow> db" where
  "adjust_writes d uid pid vid t currentQuantity newQuantity notes minLevel =
     (let d1 = update_stock d newQuantity uid pid vid;
          d2 = insert_movement d1
                 \<lparr>m_product_id = pid, m_variant_id = vid, m_movement_type = movement_of t,
                  m_quantity_change = js_sub newQuantity currentQuantity,
                  m_quantity_before = currentQuantity, m_quantity_after = newQuantity,
                  m_reference_id = None, m_reference_type = None,
                  m_notes = notes, m_created_by = uid\<rparr>
      in adjust_alerts d2 pid vid newQuantity minLevel)"

definition adjust :: "db \<Rightarrow> int \<Rightarrow> adjust_request \<Rightarrow> (error + adjust_response) \<times> db" where
  "adjust d uid r =
     (if ar_quantity r < 1 then (Inl ValidationFailed, d)
      else case get_active_product d (ar_product_id r) of
        None \<Rightarrow> (Inl ProductNotFound, d)
      | Some product \<Rightarrow>
         (case get_stock d (ar_product_id r) (or_null (ar_variant_id r)) of
            None \<Rightarrow> (Inl StockRecordNotFound, d)
          | Some currentStock \<Rightarrow>
              (let currentQuantity = s_quantity currentStock;
                   newQuantity = calc_new_quantity (ar_adjustment_type r) currentQuantity
                                   (ar_quantity r);
                   quantityChange = js_sub newQuantity currentQuantity
               in in_transaction d (\<lambda>d0.
                    let d' = adjust_writes d0 uid (ar_product_id r) (or_null (ar_variant_id r))
                               (ar_adjustment_type r) currentQuantity newQuantity
                               (str_or_null (optional_trim (ar_notes r)))
                               (p_min_stock_level product)
                    in Inr (\<lparr>adj_type = ar_adjustment_type r,
                              adj_quantity_change = quantityChange,
                              adj_previous_quantity = currentQuantity,
                              adj_new_quantity = newQuantity,
                              adj_stock_quantity =
                                map_option s_quantity
                                  (get_stock d' (ar_product_id r) (or_null (ar_variant_id r)))\<rparr>,
                            d')))))"

subsection \<open>Bulk adjustment: \<^verbatim>\<open>router.post('/bulk-adjust')\<close>\<close>

record bulk_item =
  bi_product_id :: int
  bi_variant_id :: "int option"
  bi_adjustment_type :: adjustment_type
  bi_quantity :: int

record bulk_request =
  br_adjustments :: "bulk_item list"
  br_notes :: "string option"

text \<open>An entry of \<^verbatim>\<open>results\<close> (each carries \<^verbatim>\<open>success: true\<close>) and of \<^verbatim>\<open>failed\<close>.\<close>

record bulk_success =
  bs_product_id :: int
  bs_product_name :: string
  bs_adjustment_type :: adjustment_type
  bs_quantity_change :: int
  bs_previous_quantity :: int
  bs_new_quantity :: int

record bulk_failure =
  bf_product_id :: int
  bf_error :: string

record bulk_response =
  data_successful :: "bulk_success list"
  data_failed :: "bulk_failure list"
  summary_total :: nat
  summary_successful :: nat
  summary_failed :: nat

text \<open>The body of the \<^verbatim>\<open>for (const adjustment of adjustments)\<close> loop, on the tables and
  the two lists it pushes to. No statement of the model throws inside the inner
  \<^verbatim>\<open>try\<close>, so its \<^verbatim>\<open>catch\<close> (a storage failure pushed to \<^verbatim>\<open>failed\<close>) has no branch.\<close>

definition bulk_adjust_item ::
  "int \<Rightarrow> string option \<Rightarrow> db \<times> bulk_success list \<times> bulk_failure list \<Rightarrow> bulk_item \<Rightarrow>
     db \<times> bulk_success list \<times> bulk_failure list" where
  "bulk_adjust_item uid notes st adjustment =
     (case st of (d, results, failed) \<Rightarrow>
       (case get_active_product d (bi_product_id adjustment) of
          None \<Rightarrow>
            (d, results,
             failed @ [\<lparr>bf_product_id = bi_product_id adjustment,
                        bf_error = ''Product not found''\<rparr>])
        | Some product \<Rightarrow>
           (case get_stock d (bi_product_id adjustment) (or_null (bi_variant_id adjustment)) of
              None \<Rightarrow>
                (d, results,
                 failed @ [\<lparr>bf_product_id = bi_product_id adjustment,
                            bf_error = ''Stock record not found''\<rparr>])
            | Some currentStock \<Rightarrow>
                (let currentQuantity = s_quantity currentStock;
                     newQuantity = calc_new_quantity (bi_adjustment_type adjustment)
                                     currentQuantity (bi_quantity adjustment);
                     quantityChange = js_sub newQuantity currentQuantity;
                     d' = adjust_writes d uid (bi_product_id adjustment)
                            (or_null (bi_variant_id adjustment)) (bi_adjustment_type adjustment)
                            currentQuantity newQuantity
                            (Some (str_or notes ''Bulk adjustment''))
                            (p_min_stock_level product)
                 in (d',
                     results @ [\<lparr>bs_product_id = bi_product_id adjustment,
                                 bs_product_name = p_name product,
                                 bs_adjustment_type = bi_adjustment_type adjustment,
                                 bs_quantity_change = quantityChange,
                                 bs_previous_quantity = currentQuantity,
                                 bs_new_quantity = newQuantity\<rparr>],
                     failed)))))"

fun bulk_adjust_loop ::
  "int \<Rightarrow> string option \<Rightarrow> bulk_item list \<Rightarrow> db \<times> bulk_success list \<times> bulk_failure list \<Rightarrow>
     db \<times> bulk_success list \<times> bulk_failure list" where
  "bulk_adjust_loop uid notes [] st = st"
| "bulk_adjust_loop uid notes (adjustment # rest) st =
     bulk_adjust_loop uid notes rest (bulk_adjust_item uid notes st adjustment)"

definition bulkAdjust :: "db \<Rightarrow> int \<Rightarrow> bulk_request \<Rightarrow> (error + bulk_response) \<times> db" where
  "bulkAdjust d uid r =
     (if br_adjustments r = [] \<or> \<not> list_all (\<lambda>a. 0 \<le> bi_quantity a) (br_adjustments r)
      then (Inl ValidationFailed, d)
      else in_transaction d (\<lambda>d0.
        case bulk_adjust_loop uid (optional_trim (br_notes r)) (br_adjustments r) (d0, [], []) of
          (d', results, failed) \<Rightarrow>
            Inr (\<lparr>data_successful = results, data_failed = failed,
                  summary_total = length (br_adjustments r),
                  summary_successful = length results,
                  summary_failed = length failed\<rparr>, d')))"

subsection \<open>Point of sale: \<^verbatim>\<open>router.post('/')\<close> of sales.js\<close>

record sale_line =
  ln_product_id :: int
  ln_variant_id :: "int option"
  ln_quantity :: int
  ln_unit_price :: int

record sale_request =
  sr_items :: "sale_line list"
  sr_payment_method :: "string option"
  sr_customer_name :: "string option"
  sr_discount_amount :: "int option"
  sr_tax_amount :: "int option"
  sr_notes :: "string option"

text \<open>An entry of \<^verbatim>\<open>validatedItems\<close>; \<^verbatim>\<open>current_stock\<close> is the quantity read while
  the line was validated.\<close>

record validated_item =
  v_product_id :: int
  v_variant_id :: "int option"
  v_quantity :: int
  v_unit_price :: int
  v_total_price :: int
  v_product :: product
  v_current_stock :: int

record sale_response =
  created_sale :: "sale option"
  created_items :: "sale_item list"

text \<open>The first loop: \<^verbatim>\<open>for (const item of items)\<close>, which only reads. A \<^verbatim>\<open>throw\<close>
  is \<open>Inl\<close>; the message of the second one prints \<^verbatim>\<open>stock ? stock.quantity : 0\<close>.\<close>

fun validate_items ::
  "db \<Rightarrow> sale_line list \<Rightarrow> validated_item list \<Rightarrow> int \<Rightarrow>
     error + (validated_item list \<times> int)" where
  "validate_items d [] validatedItems subtotal = Inr (validatedItems, subtotal)"
| "validate_items d (item # rest) validatedItems subtotal =
     (case get_active_product d (ln_product_id item) of
        None \<Rightarrow> Inl (SaleProductNotFound (ln_product_id item))
      | Some product \<Rightarrow>
         (case get_stock d (ln_product_id item) (or_null (ln_variant_id item)) of
            None \<Rightarrow> Inl (InsufficientStock (p_name product) 0 (ln_quantity item))
          | Some stockRow \<Rightarrow>
              if s_quantity stockRow < ln_quantity item
              then Inl (InsufficientStock (p_name product) (s_quantity stockRow)
                          (ln_quantity item))
              else (let totalPrice = ln_quantity item * ln_unit_price item
                    in validate_items d rest
                         (validatedItems @
                            [\<lparr>v_product_id = ln_product_id item,
                              v_variant_id = or_null (ln_variant_id item),
                              v_quantity = ln_quantity item,
                              v_unit_price = ln_unit_price item,
                              v_total_price = totalPrice,
                              v_product = product,
                              v_current_stock = s_quantity stockRow\<rparr>])
                         (subtotal + totalPrice))))"

text \<open>The low-stock block of the sale: it opens an alert and has no \<^verbatim>\<open>else\<close>.\<close>

definition sale_alerts :: "db \<Rightarrow> int \<Rightarrow> int option \<Rightarrow> int \<Rightarrow> int \<Rightarrow> db" where
  "sale_alerts d pid vid newQuantity minLevel =
     (if newQuantity \<le> minLevel
      then (case get_active_alert d pid vid of
              None \<Rightarrow> insert_alert d pid vid newQuantity minLevel
            | Some existingAlert \<Rightarrow> d)
      else d)"

text \<open>The body of the second loop, \<^verbatim>\<open>for (const item of validatedItems)\<close>: the sale
  item, the stock row, the movement, the alert.\<close>

definition write_sale_item :: "int \<Rightarrow> int \<Rightarrow> string \<Rightarrow> db \<Rightarrow> validated_item \<Rightarrow> db" where
  "write_sale_item uid saleId saleNumber d item =
     (let d1 = d\<lparr>sale_items := sale_items d @
                   [\<lparr>si_id = next_id (map si_id (sale_items d)), si_sale_id = saleId,
                     si_product_id = v_product_id item, si_variant_id = v_variant_id item,
                     si_quantity = v_quantity item, si_unit_price = v_unit_price item,
                     si_total_price = v_total_price item, si_discount_amount = 0\<rparr>]\<rparr>;
          newQuantity = js_sub (v_current_stock item) (v_quantity item);
          d2 = update_stock d1 newQuantity uid (v_product_id item) (v_variant_id item);
          d3 = insert_movement d2
                 \<lparr>m_product_id = v_product_id item, m_variant_id = v_variant_id item,
                  m_movement_type = M_sale, m_quantity_change = - v_quantity item,
                  m_quantity_before = v_current_stock item, m_quantity_after = newQuantity,
                  m_reference_id = Some saleId, m_reference_type = Some ''sale'',
                  m_notes = Some (''Sale '' @ saleNumber), m_created_by = uid\<rparr>
      in sale_alerts d3 (v_product_id item) (v_variant_id item) newQuantity
           (p_min_stock_level (v_product item)))"

fun write_sale_items :: "int \<Rightarrow> int \<Rightarrow> string \<Rightarrow> db \<Rightarrow> validated_item list \<Rightarrow> db" where
  "write_sale_items uid saleId saleNumber d [] = d"
| "write_sale_items uid saleId saleNumber d (item # rest) =
     write_sale_items uid saleId saleNumber (write_sale_item uid saleId saleNumber d item) rest"

text \<open>What stands between \<^verbatim>\<open>beginTransaction\<close> and \<^verbatim>\<open>commit\<close>. The sale number is
  built from the clock and a random suffix, so it is an argument; the column is
  \<^verbatim>\<open>UNIQUE\<close>, and the \<^verbatim>\<open>INSERT\<close> throws on a number already there.\<close>

definition createSale_body ::
  "int \<Rightarrow> string \<Rightarrow> sale_request \<Rightarrow> db \<Rightarrow> (error \<times> db) + (sale_response \<times> db)" where
  "createSale_body uid saleNumber r d =
     (case validate_items d (sr_items r) [] 0 of
        Inl e \<Rightarrow> Inl (e, d)
      | Inr (validatedItems, subtotal) \<Rightarrow>
          (let discount_amount = (case sr_discount_amount r of None \<Rightarrow> 0 | Some x \<Rightarrow> x);
               tax_amount = (case sr_tax_amount r of None \<Rightarrow> 0 | Some x \<Rightarrow> x);
               totalAmount = subtotal - discount_amount + tax_amount
           in if saleNumber \<in> set (map sl_sale_number (sales d))
              then Inl (SaleNumberExists, d)
              else
               (let saleId = next_id (map sl_id (sales d));
                    d1 = d\<lparr>sales := sales d @
                           [\<lparr>sl_id = saleId, sl_sale_number = saleNumber,
                             sl_total_amount = totalAmount, sl_tax_amount = tax_amount,
                             sl_discount_amount = discount_amount,
                             sl_payment_method =
                               (case optional_trim (sr_payment_method r) of
                                  None \<Rightarrow> ''cash'' | Some x \<Rightarrow> x),
                             sl_status = Completed, sl_cashier_id = uid,
                             sl_customer_name = str_or_null (optional_trim (sr_customer_name r)),
                             sl_notes = str_or_null (optional_trim (sr_notes r))\<rparr>]\<rparr>;
                    d2 = write_sale_items uid saleId saleNumber d1 validatedItems
                in Inr (\<lparr>created_sale = find (\<lambda>s. sl_id s = saleId) (sales d2),
                          created_items = filter (\<lambda>i. si_sale_id i = saleId) (sale_items d2)\<rparr>,
                        d2))))"

definition createSale ::
  "db \<Rightarrow> int \<Rightarrow> string \<Rightarrow> sale_request \<Rightarrow> (error + sale_response) \<times> db" where
  "createSale d uid saleNumber r =
     (if sr_items r = []
         \<or> \<not> list_all (\<lambda>i. 1 \<le> ln_quantity i \<and> 0 \<le> ln_unit_price i) (sr_items r)
         \<or> (case sr_discount_amount r of None \<Rightarrow> False | Some x \<Rightarrow> x < 0)
         \<or> (case sr_tax_amount r of None \<Rightarrow> False | Some x \<Rightarrow> x < 0)
      then (Inl ValidationFailed, d)
      else in_transaction d (createSale_body uid saleNumber r))"

subsection \<open>Refund: \<^verbatim>\<open>router.post('/:id/refund')\<close>\<close>

text \<open>
  The handler declares \<^verbatim>\<open>body('partial_items').optional().isArray()\<close> but never looks
  at the validation result, so it reads \<^verbatim>\<open>partial_items\<close> whatever it is. What the
  handler can tell apart:
  \<^item> an entry of an array: \<^verbatim>\<open>null\<close> or \<^verbatim>\<open>undefined\<close>, on which reading
    \<^verbatim>\<open>.sale_item_id\<close> throws a TypeError; an object whose \<^verbatim>\<open>sale_item_id\<close> is a number;
    anything else, whose \<^verbatim>\<open>sale_item_id\<close> is strictly equal to no item id;
  \<^item> the field: absent, or a value that is falsy or has no \<^verbatim>\<open>length\<close> above 0 (\<open>PI_absent\<close>;
    an empty array is \<open>PI_array []\<close>); an array; a value with a \<^verbatim>\<open>length\<close> above 0
    and no method \<^verbatim>\<open>some\<close>, such as a non-empty string (\<open>PI_other\<close>), on which the call
    of \<^verbatim>\<open>.some\<close> throws a TypeError.
\<close>

datatype partial_entry = Entry_null | Entry_id int | Entry_other

datatype partial_items = PI_absent | PI_array "partial_entry list" | PI_other

record refund_request =
  rf_reason :: "string option"
  rf_partial_items :: partial_items

record refund_response =
  refund_full :: bool
  refunded_items :: nat
  total_items :: nat

text \<open>\<^verbatim>\<open>partial_items.some(partialItem => partialItem.sale_item_id === item.id)\<close>: the
  entries in order, up to the first that names the item; a TypeError is \<open>Inl\<close>.\<close>

fun names_item :: "partial_entry list \<Rightarrow> sale_item \<Rightarrow> error + bool" where
  "names_item [] item = Inr False"
| "names_item (Entry_null # rest) item = Inl ServerError"
| "names_item (Entry_id sale_item_id # rest) item =
     (if sale_item_id = si_id item then Inr True else names_item rest item)"
| "names_item (Entry_other # rest) item = names_item rest item"

text \<open>\<^verbatim>\<open>saleItems.filter(item => ...)\<close>, the items in order; the callback is not called on
  an empty list.\<close>

fun filter_items ::
  "(sale_item \<Rightarrow> error + bool) \<Rightarrow> sale_item list \<Rightarrow> error + sale_item list" where
  "filter_items callback [] = Inr []"
| "filter_items callback (item # rest) =
     (case callback item of
        Inl e \<Rightarrow> Inl e
      | Inr keep \<Rightarrow>
          (case filter_items callback rest of
             Inl e \<Rightarrow> Inl e
           | Inr kept \<Rightarrow> Inr (if keep then item # kept else kept)))"

text \<open>\<^verbatim>\<open>itemsToRefund\<close>: every item, or those a \<^verbatim>\<open>partial_items\<close> of positive length
  names.\<close>

definition items_to_refund :: "partial_items \<Rightarrow> sale_item list \<Rightarrow> error + sale_item list" where
  "items_to_refund partial_items saleItems =
     (case partial_items of
        PI_absent \<Rightarrow> Inr saleItems
      | PI_array entries \<Rightarrow>
          if length entries > 0
          then filter_items (names_item entries) saleItems
          else Inr saleItems
      | PI_other \<Rightarrow> filter_items (\<lambda>item. Inl ServerError) saleItems)"

text \<open>The body of \<^verbatim>\<open>for (const item of itemsToRefund)\<close>; an item with no stock row
  falls through the \<^verbatim>\<open>if (currentStock)\<close>.\<close>

definition refund_item :: "int \<Rightarrow> int \<Rightarrow> sale \<Rightarrow> string option \<Rightarrow> db \<Rightarrow> sale_item \<Rightarrow> db" where
  "refund_item uid saleId sale reason d item =
     (case get_stock d (si_product_id item) (si_variant_id item) of
        None \<Rightarrow> d
      | Some currentStock \<Rightarrow>
          (let newQuantity = js_add (s_quantity currentStock) (si_quantity item);
               d1 = update_stock d newQuantity uid (si_product_id item) (si_variant_id item)
           in insert_movement d1
                \<lparr>m_product_id = si_product_id item, m_variant_id = si_variant_id item,
                 m_movement_type = M_return, m_quantity_change = si_quantity item,
                 m_quantity_before = s_quantity currentStock, m_quantity_after = newQuantity,
                 m_reference_id = Some saleId, m_reference_type = Some ''refund'',
                 m_notes = Some (''Refund for sale '' @ sl_sale_number sale @
                                 (if truthy reason then '': '' @ str_or reason [] else [])),
                 m_created_by = uid\<rparr>))"

fun refund_items :: "int \<Rightarrow> int \<Rightarrow> sale \<Rightarrow> string option \<Rightarrow> db \<Rightarrow> sale_item list \<Rightarrow> db" where
  "refund_items uid saleId sale reason d [] = d"
| "refund_items uid saleId sale reason d (item # rest) =
     refund_items uid saleId sale reason (refund_item uid saleId sale reason d item) rest"

text \<open>\<^verbatim>\<open>SELECT * FROM sale_items WHERE sale_id = ?\<close>\<close>

definition sale_items_of :: "db \<Rightarrow> int \<Rightarrow> sale_item list" where
  "sale_items_of d saleId = filter (\<lambda>i. si_sale_id i = saleId) (sale_items d)"

text \<open>\<^verbatim>\<open>UPDATE sales SET status = ?, notes = ? WHERE id = ?\<close>\<close>

definition update_sale :: "db \<Rightarrow> sale_status \<Rightarrow> string \<Rightarrow> int \<Rightarrow> db" where
  "update_sale d status notes saleId =
     d\<lparr>sales := map (\<lambda>s. if sl_id s = saleId
                           then s\<lparr>sl_status := status, sl_notes := Some notes\<rparr> else s)
                     (sales d)\<rparr>"

text \<open>The handler; \<^verbatim>\<open>reason\<close> is the field after \<^verbatim>\<open>body('reason').optional().trim()\<close>. A
  TypeError of the filter is caught inside the transaction, rolled back and answered
  with status 500.\<close>

definition refund :: "db \<Rightarrow> int \<Rightarrow> int \<Rightarrow> refund_request \<Rightarrow> (error + refund_response) \<times> db" where
  "refund d uid saleId r =
     (let reason = optional_trim (rf_reason r)
      in case find (\<lambda>s. sl_id s = saleId \<and> sl_status s = Completed) (sales d) of
        None \<Rightarrow> (Inl SaleNotFound, d)
      | Some sale \<Rightarrow>
          (let saleItems = sale_items_of d saleId
           in in_transaction d (\<lambda>d0.
                case items_to_refund (rf_partial_items r) saleItems of
                  Inl e \<Rightarrow> Inl (e, d0)
                | Inr itemsToRefund \<Rightarrow>
                   (let d1 = refund_items uid saleId sale reason d0 itemsToRefund;
                        isFullRefund = (length itemsToRefund = length saleItems);
                        d2 = update_sale d1 (if isFullRefund then Refunded else Completed)
                               (str_or (sl_notes sale) [] @ [CHR 0x0A] @ ''Refund: '' @
                                  str_or reason ''No reason provided'')
                               saleId
                    in Inr (\<lparr>refund_full = isFullRefund,
                              refunded_items = length itemsToRefund,
                              total_items = length saleItems\<rparr>, d2)))))"

subsection \<open>Acknowledging an alert: \<^verbatim>\<open>router.put('/alerts/:id/acknowledge')\<close>\<close>

definition acknowledge :: "db \<Rightarrow> int \<Rightarrow> int \<Rightarrow> (error + unit) \<times> db" where
  "acknowledge d uid alertId =
     (case find (\<lambda>a. a_id a = alertId \<and> a_alert_status a = Active) (low_stock_alerts d) of
        None \<Rightarrow> (Inl AlertNotFound, d)
      | Some alert \<Rightarrow>
          (Inr (),
           d\<lparr>low_stock_alerts :=
               map (\<lambda>a. if a_id a = alertId
                        then a\<lparr>a_alert_status := Acknowledged, a_acknowledged_by := Some uid\<rparr>
                        else a) (low_stock_alerts d)\<rparr>))"

subsection \<open>Sequences of requests\<close>

datatype request =
    Adjust int adjust_request
  | BulkAdjust int bulk_request
  | CreateSale int string sale_request
  | Refund int int refund_request
  | Acknowledge int int

fun run_request :: "db \<Rightarrow> request \<Rightarrow> db" where
  "run_request d (Adjust uid r) = snd (adjust d uid r)"
| "run_request d (BulkAdjust uid r) = snd (bulkAdjust d uid r)"
| "run_request d (CreateSale uid saleNumber r) = snd (createSale d uid saleNumber r)"
| "run_request d (Refund uid saleId r) = snd (refund d uid saleId r)"
| "run_request d (Acknowledge uid alertId) = snd (acknowledge d uid alertId)"

text \<open>The tables after each request of a sequence, in order.\<close>

fun run_trace :: "db \<Rightarrow> request list \<Rightarrow> db list" where
  "run_trace d [] = []"
| "run_trace d (q # qs) = run_request d q # run_trace (run_request d q) qs"

subsection \<open>Example tables\<close>

text \<open>Product 1 with minimum level 10 and product 2 with minimum level 0, one stock row
  each (no variant), holding \<open>qa\<close> and \<open>qb\<close> units; no product 9999.\<close>

definition ex_db :: "int \<Rightarrow> int \<Rightarrow> db" where
  "ex_db qa qb =
     \<lparr>products = [\<lparr>p_id = 1, p_name = ''A'', p_min_stock_level = 10, p_is_active = True\<rparr>,
                  \<lparr>p_id = 2, p_name = ''B'', p_min_stock_level = 0, p_is_active = True\<rparr>],
      stock = [\<lparr>s_product_id = 1, s_variant_id = None, s_quantity = qa, s_updated_by = None\<rparr>,
               \<lparr>s_product_id = 2, s_variant_id = None, s_quantity = qb, s_updated_by = None\<rparr>],
      stock_movements = [], sales = [], sale_items = [], low_stock_alerts = []\<rparr>"

definition ex_adjust :: "adjustment_type \<Rightarrow> int \<Rightarrow> adjust_request" where
  "ex_adjust t q =
     \<lparr>ar_product_id = 1, ar_variant_id = None, ar_adjustment_type = t, ar_quantity = q,
      ar_notes = None\<rparr>"

definition ex_bulk_item :: "int \<Rightarrow> adjustment_type \<Rightarrow> int \<Rightarrow> bulk_item" where
  "ex_bulk_item pid t q =
     \<lparr>bi_product_id = pid, bi_variant_id = None, bi_adjustment_type = t, bi_quantity = q\<rparr>"

definition ex_line :: "int \<Rightarrow> int \<Rightarrow> sale_line" where
  "ex_line pid q =
     \<lparr>ln_product_id = pid, ln_variant_id = None, ln_quantity = q, ln_unit_price = 2\<rparr>"

definition ex_sale :: "sale_line list \<Rightarrow> sale_request" where
  "ex_sale ls =
     \<lparr>sr_items = ls, sr_payment_method = None, sr_customer_name = None,
      sr_discount_amount = None, sr_tax_amount = None, sr_notes = None\<rparr>"

subsection \<open>Notions the properties are stated with\<close>

text \<open>The quantity stored for a key, when it has a stock row.\<close>

definition stock_quantity :: "db \<Rightarrow> int \<Rightarrow> int option \<Rightarrow> int option" where
  "stock_quantity d pid vid = map_option s_quantity (get_stock d pid vid)"

text \<open>The sale item has a stock row.\<close>

definition has_stock :: "db \<Rightarrow> sale_item \<Rightarrow> bool" where
  "has_stock d item = (get_stock d (si_product_id item) (si_variant_id item) \<noteq> None)"

text \<open>The movement is the return of the sale item, as a refund of the sale records it;
  its quantity after is the sum, as a JavaScript number, of the quantity before and the
  item's quantity.\<close>

definition is_refund_movement :: "int \<Rightarrow> stock_movement \<Rightarrow> sale_item \<Rightarrow> bool" where
  "is_refund_movement saleId m item =
     (m_product_id m = si_product_id item \<and> m_variant_id m = si_variant_id item \<and>
      m_movement_type m = M_return \<and> m_quantity_change m = si_quantity item \<and>
      m_quantity_after m = js_add (m_quantity_before m) (si_quantity item) \<and>
      m_reference_id m = Some saleId \<and> m_reference_type m = Some ''refund'')"

text \<open>The units the items give back to a key.\<close>

definition credited :: "sale_item list \<Rightarrow> int \<Rightarrow> int option \<Rightarrow> int" where
  "credited its pid vid =
     sum_list (map si_quantity
       (filter (\<lambda>item. si_product_id item = pid \<and> si_variant_id item = vid) its))"

text \<open>A quantity \<open>q\<close> of a key after the quantities of the items of that key were added
  to it one after the other, as JavaScript numbers.\<close>

definition credit_all :: "sale_item list \<Rightarrow> int \<Rightarrow> int option \<Rightarrow> int \<Rightarrow> int" where
  "credit_all its pid vid q =
     fold (\<lambda>item q'. js_add q' (si_quantity item))
       (filter (\<lambda>item. si_product_id item = pid \<and> si_variant_id item = vid) its) q"

text \<open>The request targets the item: it gives no \<^verbatim>\<open>partial_items\<close> (or an empty array),
  or an entry of its array carries the id of the item.\<close>

definition targeted :: "partial_items \<Rightarrow> sale_item \<Rightarrow> bool" where
  "targeted ps item =
     (case ps of
        PI_absent \<Rightarrow> True
      | PI_array entries \<Rightarrow> entries = [] \<or> Entry_id (si_id item) \<in> set entries
      | PI_other \<Rightarrow> False)"

text \<open>The \<^verbatim>\<open>partial_items\<close> of a request can be matched against the items of the sale
  without a TypeError: it is absent; or it is an array in which, for every item of the
  sale, no null entry stands before the first entry that carries the id of the item; or
  it is no array and the sale has no item.\<close>

definition matchable :: "partial_items \<Rightarrow> sale_item list \<Rightarrow> bool" where
  "matchable ps saleItems =
     (case ps of
        PI_absent \<Rightarrow> True
      | PI_array entries \<Rightarrow>
          list_all (\<lambda>item. Entry_null \<notin> set (takeWhile (\<lambda>e. e \<noteq> Entry_id (si_id item)) entries))
            saleItems
      | PI_other \<Rightarrow> saleItems = [])"

text \<open>The number \<open>2 ^ 53\<close>, up to which every integer is a JavaScript number.\<close>

definition max_exact :: int where
  "max_exact = 9007199254740992"

text \<open>Replaying the movements of a key from quantity 0 with each entry's change.\<close>

definition replay :: "stock_movement list \<Rightarrow> int \<Rightarrow> int option \<Rightarrow> int" where
  "replay ms pid vid =
     sum_list (map m_quantity_change
       (filter (\<lambda>m. m_product_id m = pid \<and> m_variant_id m = vid) ms))"

text \<open>No key has two active alerts.\<close>

definition single_active :: "db \<Rightarrow> bool" where
  "single_active d =
     distinct (map (\<lambda>a. (a_product_id a, a_variant_id a))
       (filter (\<lambda>a. a_alert_status a = Active) (low_stock_alerts d)))"

text \<open>No stock row holds a negative quantity.\<close>

definition stock_nonneg :: "db \<Rightarrow> bool" where
  "stock_nonneg d = list_all (\<lambda>s. 0 \<le> s_quantity s) (stock d)"

text \<open>The requests that only take stock out: an adjustment of type out, a bulk
  adjustment whose items are all of type out, a sale.\<close>

fun out_or_sale :: "request \<Rightarrow> bool" where
  "out_or_sale (Adjust uid r) = (ar_adjustment_type r = Adj_out)"
| "out_or_sale (BulkAdjust uid r) =
     list_all (\<lambda>a. bi_adjustment_type a = Adj_out) (br_adjustments r)"
| "out_or_sale (CreateSale uid saleNumber r) = True"
| "out_or_sale (Refund uid saleId r) = False"
| "out_or_sale (Acknowledge uid alertId) = False"

text \<open>A line of a sale passes its checks: the product is there and active, its stock row
  is there and holds at least the quantity asked for.\<close>

definition line_ok :: "db \<Rightarrow> sale_line \<Rightarrow> bool" where
  "line_ok d item =
     (get_active_product d (ln_product_id item) \<noteq> None \<and>
      (case get_stock d (ln_product_id item) (or_null (ln_variant_id item)) of
         None \<Rightarrow> False
       | Some s \<Rightarrow> ln_quantity item \<le> s_quantity s))"

text \<open>An item of a bulk adjustment passes its checks: the product is there and active and
  its stock row is there.\<close>

definition bulk_item_ok :: "db \<Rightarrow> bulk_item \<Rightarrow> bool" where
  "bulk_item_ok d a =
     (get_active_product d (bi_product_id a) \<noteq> None \<and>
      get_stock d (bi_product_id a) (or_null (bi_variant_id a)) \<noteq> None)"

text \<open>The reason the bulk route gives for an item that does not pass.\<close>

definition bulk_failure_of :: "db \<Rightarrow> bulk_item \<Rightarrow> bulk_failure" where
  "bulk_failure_of d a =
     \<lparr>bf_product_id = bi_product_id a,
      bf_error = (if get_active_product d (bi_product_id a) = None
                  then ''Product not found'' else ''Stock record not found'')\<rparr>"


text \<open>The example tables after sale 1 was completed, with \<open>qa\<close> units of product 1 in
  stock: the sale holds 4 units of product 1 and 2 units of product 3, whose stock row
  is gone (no route removes a stock row; it was deleted from the table directly).\<close>

definition ex_sold_db :: "int \<Rightarrow> db" where
  "ex_sold_db qa =
     (ex_db qa 0)
       \<lparr>sales := [\<lparr>sl_id = 1, sl_sale_number = ''S1'', sl_total_amount = 12, sl_tax_amount = 0,
                    sl_discount_amount = 0, sl_payment_method = ''cash'', sl_status = Completed,
                    sl_cashier_id = 7, sl_customer_name = None, sl_notes = None\<rparr>],
        sale_items := [\<lparr>si_id = 1, si_sale_id = 1, si_product_id = 1, si_variant_id = None,
                         si_quantity = 4, si_unit_price = 2, si_total_price = 8,
                         si_discount_amount = 0\<rparr>,
                       \<lparr>si_id = 2, si_sale_id = 1, si_product_id = 3, si_variant_id = None,
                         si_quantity = 2, si_unit_price = 2, si_total_price = 4,
                         si_discount_amount = 0\<rparr>]\<rparr>"

definition ex_refund :: "partial_items \<Rightarrow> refund_request" where
  "ex_refund ps = \<lparr>rf_reason = None, rf_partial_items = ps\<rparr>"

text \<open>The example tables with 5 units of product 1 and its alert open.\<close>

definition ex_alert_db :: db where
  "ex_alert_db =
     (ex_db 5 0)
       \<lparr>low_stock_alerts := [\<lparr>a_id = 1, a_product_id = 1, a_variant_id = None,
                               a_current_stock = 5, a_min_stock_level = 10,
                               a_alert_status = Active, a_acknowledged_by = None\<rparr>]\<rparr>"

text \<open>Stocking 5 units of product 1, then one sale that lists product 1 on two lines of
  3 units each.\<close>

definition ex_double_sale :: "request list" where
  "ex_double_sale =
     [Adjust 7 (ex_adjust Adj_in 5),
      CreateSale 7 ''S1'' (ex_sale [ex_line 1 3, ex_line 1 3])]"

text \<open>Selling 15 of the 20 units of product 1 (minimum level 10), then refunding the
  whole sale.\<close>

definition ex_sale_refund :: "request list" where
  "ex_sale_refund =
     [CreateSale 7 ''S1'' (ex_sale [ex_line 1 15]),
      Refund 7 1 (ex_refund PI_absent)]"

text \<open>One sale of 4 units of product 1 and 1 unit of product 2.\<close>

definition ex_one_sale :: "request list" where
  "ex_one_sale = [CreateSale 7 ''S1'' (ex_sale [ex_line 1 4, ex_line 2 1])]"

text \<open>Setting the stock of product 1 to 36028797018963976 (\<open>2 ^ 55 + 8\<close>), selling 4
  units of it, and refunding the sale.\<close>

definition ex_big_sale :: "request list" where
  "ex_big_sale =
     [Adjust 7 (ex_adjust Adj_adjustment 36028797018963976),
      CreateSale 7 ''S1'' (ex_sale [ex_line 1 4])]"

definition ex_big_refund :: "request list" where
  "ex_big_refund = ex_big_sale @ [Refund 7 1 (ex_refund PI_absent)]"

text \<open>The tables after all requests of a sequence.\<close>

definition run_requests :: "db \<Rightarrow> request list \<Rightarrow> db" where
  "run_requests d qs = fold (\<lambda>q d'. run_request d' q) qs d"

text \<open>The movements of a key, replayed from 0, give the quantity its stock row holds.\<close>

definition ledger_ok :: "db \<Rightarrow> int \<Rightarrow> int option \<Rightarrow> bool" where
  "ledger_ok d pid vid =
     (case stock_quantity d pid vid of
        None \<Rightarrow> True
      | Some q \<Rightarrow> replay (stock_movements d) pid vid = q)"

section \<open>Properties\<close>

subsection \<open>JavaScript numbers\<close>

lemma shift_of_small:
  "n < 2 ^ 53 \<Longrightarrow> shift_of n = 0"
  by (subst shift_of.simps) simp

lemma shift_of_pow53:
  "shift_of 9007199254740992 = 1"
  by (subst shift_of.simps) (simp add: shift_of_small)

text \<open>Every integer of magnitude at most \<open>2 ^ 53\<close> is a number.\<close>

lemma js_num_exact:
  assumes "\<bar>x\<bar> \<le> max_exact"
  shows "js_num x = x"
proof (cases "nat \<bar>x\<bar> < 2 ^ 53")
  case True
  then show ?thesis
    by (simp add: js_num_def Let_def shift_of_small)
next
  case False
  then have n: "nat \<bar>x\<bar> = 9007199254740992"
    using assms by (simp add: max_exact_def)
  then have "\<bar>x\<bar> = 9007199254740992"
    by linarith
  then show ?thesis
    by (cases "x < 0") (simp_all add: js_num_def Let_def n shift_of_pow53)
qed

text \<open>Rounding keeps the sign.\<close>

lemma js_num_nonneg:
  "0 \<le> x \<Longrightarrow> 0 \<le> js_num x"
  by (simp add: js_num_def Let_def)


lemma js_sub_exact:
  "\<bar>a - b\<bar> \<le> max_exact \<Longrightarrow> js_sub a b = a - b"
  by (simp add: js_sub_def js_num_exact)

lemma js_add_exact:
  "\<bar>a + b\<bar> \<le> max_exact \<Longrightarrow> js_add a b = a + b"
  by (simp add: js_add_def js_num_exact)



text \<open>Just above \<open>2 ^ 53\<close> the odd integers are no numbers; \<open>2 ^ 55 + 4\<close> lies halfway
  between two numbers.\<close>

lemma shift_of_examples:
  "shift_of 9007199254740993 = 1"
  "shift_of 9007199254740994 = 1"
  "shift_of 36028797018963972 = 3"
  "shift_of 36028797018963976 = 3"
  by (subst shift_of.simps, simp add: shift_of_small)+

lemma js_num_examples:
  "js_num 9007199254740993 = 9007199254740992"
  "js_num 9007199254740994 = 9007199254740994"
  "js_num (- 2) = - 2"
  "js_num 36028797018963972 = 36028797018963968"
  "js_num 36028797018963976 = 36028797018963976"
  by (simp_all add: js_num_def Let_def shift_of_examples shift_of_small)

subsection \<open>Reading the tables back after a statement\<close>

lemma find_map_same:
  assumes "\<And>x. P x \<Longrightarrow> P (f x)"
  shows "find P (map (\<lambda>x. if P x then f x else x) xs) = map_option f (find P xs)"
  using assms by (induction xs) auto

lemma find_map_other:
  assumes "\<And>x. Q x \<Longrightarrow> \<not> P x" and "\<And>x. Q x \<Longrightarrow> \<not> P (f x)"
  shows "find P (map (\<lambda>x. if Q x then f x else x) xs) = find P xs"
  using assms by (induction xs) auto

lemma get_stock_update_same:
  "get_stock (update_stock d q uid pid vid) pid vid =
     map_option (\<lambda>s. s\<lparr>s_quantity := q, s_updated_by := Some uid\<rparr>) (get_stock d pid vid)"
  unfolding get_stock_def update_stock_def
  by (simp, rule find_map_same) (simp add: stock_matches_def)

lemma get_stock_update_other:
  "(pid', vid') \<noteq> (pid, vid) \<Longrightarrow>
     get_stock (update_stock d q uid pid vid) pid' vid' = get_stock d pid' vid'"
  unfolding get_stock_def update_stock_def
  by (simp, rule find_map_other) (auto simp: stock_matches_def)

lemma get_stock_insert_movement [simp]:
  "get_stock (insert_movement d m) pid vid = get_stock d pid vid"
  by (simp add: get_stock_def insert_movement_def)

lemma stock_adjust_alerts [simp]:
  "stock (adjust_alerts d pid vid q ml) = stock d"
  by (simp add: adjust_alerts_def insert_alert_def resolve_alerts_def split: option.splits)

lemma movements_adjust_alerts [simp]:
  "stock_movements (adjust_alerts d pid vid q ml) = stock_movements d"
  by (simp add: adjust_alerts_def insert_alert_def resolve_alerts_def split: option.splits)

lemma get_stock_adjust_alerts [simp]:
  "get_stock (adjust_alerts d pid vid q ml) pid' vid' = get_stock d pid' vid'"
  by (simp add: get_stock_def)

lemma movements_update_stock [simp]:
  "stock_movements (update_stock d q uid pid vid) = stock_movements d"
  by (simp add: update_stock_def)


lemma movements_adjust_writes:
  "stock_movements (adjust_writes d uid pid vid t cq nq notes ml) =
     stock_movements d @
       [\<lparr>m_product_id = pid, m_variant_id = vid, m_movement_type = movement_of t,
         m_quantity_change = js_sub nq cq, m_quantity_before = cq, m_quantity_after = nq,
         m_reference_id = None, m_reference_type = None, m_notes = notes,
         m_created_by = uid\<rparr>]"
  by (simp add: adjust_writes_def Let_def insert_movement_def)

lemma stock_quantity_update_stock:
  "stock_quantity (update_stock d q uid pid vid) pid' vid' =
     (if pid' = pid \<and> vid' = vid then map_option (\<lambda>_. q) (stock_quantity d pid vid)
      else stock_quantity d pid' vid')"
  by (auto simp: stock_quantity_def get_stock_update_same get_stock_update_other
        option.map_comp comp_def)

lemma stock_quantity_insert_movement [simp]:
  "stock_quantity (insert_movement d m) pid vid = stock_quantity d pid vid"
  by (simp add: stock_quantity_def)

text \<open>The definitions a request on concrete tables is computed with.\<close>

lemmas eval_defs =
  ex_db_def ex_adjust_def ex_bulk_item_def ex_line_def ex_sale_def ex_refund_def
  adjust_def bulkAdjust_def bulk_adjust_item_def in_transaction_def adjust_writes_def
  adjust_alerts_def createSale_def createSale_body_def write_sale_item_def sale_alerts_def
  refund_def refund_item_def items_to_refund_def sale_items_of_def update_sale_def
  get_active_product_def get_stock_def stock_matches_def update_stock_def insert_movement_def
  get_active_alert_def alert_matches_def insert_alert_def resolve_alerts_def
  or_null_def str_or_null_def str_or_def truthy_def optional_trim_def next_id_def Let_def
  js_add_def js_sub_def js_num_exact max_exact_def

subsection \<open>The bulk loop\<close>

lemma products_adjust_writes [simp]:
  "products (adjust_writes d uid pid vid t cq nq notes ml) = products d"
  by (simp add: adjust_writes_def Let_def adjust_alerts_def insert_alert_def resolve_alerts_def
        insert_movement_def update_stock_def split: option.splits)

lemma get_active_product_adjust_writes [simp]:
  "get_active_product (adjust_writes d uid pid vid t cq nq notes ml) p = get_active_product d p"
  by (simp add: get_active_product_def)




text \<open>One pass of the loop body: an item that does not pass is pushed to the failed
  list and nothing is written; an item that passes gets one result and one movement.\<close>

lemma bulk_adjust_item_bad:
  "\<not> bulk_item_ok d a \<Longrightarrow>
     bulk_adjust_item uid notes (d, results, failures) a
       = (d, results, failures @ [bulk_failure_of d a])"
  by (auto simp: bulk_item_ok_def bulk_adjust_item_def bulk_failure_of_def split: option.splits)



text \<open>
  C9. A bulk adjustment that passes the request validators answers success. Every item
  whose product is missing or inactive, or whose stock row is missing, is in the failed
  list with its reason, in order, and the items after it are still processed; the
  successful list holds the remaining items, in order, and the movements written are
  exactly one per entry of the successful list, with its type, quantities and change.
  The summary counts are the length of the input and of the two lists, which add up to
  the length of the input.
\<close>

subsection \<open>Adjustments of type out\<close>









subsection \<open>The refund loop\<close>

lemma stock_quantity_refund_item:
  "stock_quantity (refund_item uid saleId sale reason d item) pid vid =
     map_option (credit_all [item] pid vid) (stock_quantity d pid vid)"
proof (cases "get_stock d (si_product_id item) (si_variant_id item)")
  case None
  then have same: "refund_item uid saleId sale reason d item = d"
    by (simp add: refund_item_def)
  show ?thesis
  proof (cases "si_product_id item = pid \<and> si_variant_id item = vid")
    case True
    then have "stock_quantity d pid vid = None"
      using None by (auto simp: stock_quantity_def)
    then show ?thesis
      by (simp add: same)
  next
    case False
    then have "credit_all [item] pid vid = (\<lambda>q. q)"
      by (auto simp: credit_all_def fun_eq_iff)
    then show ?thesis
      by (simp add: same option.map_ident)
  qed
next
  case (Some s)
  then have sq: "stock_quantity d (si_product_id item) (si_variant_id item) = Some (s_quantity s)"
    by (simp add: stock_quantity_def)
  have "refund_item uid saleId sale reason d item =
      insert_movement
        (update_stock d (js_add (s_quantity s) (si_quantity item)) uid (si_product_id item)
           (si_variant_id item))
        \<lparr>m_product_id = si_product_id item, m_variant_id = si_variant_id item,
         m_movement_type = M_return, m_quantity_change = si_quantity item,
         m_quantity_before = s_quantity s,
         m_quantity_after = js_add (s_quantity s) (si_quantity item),
         m_reference_id = Some saleId, m_reference_type = Some ''refund'',
         m_notes = Some (''Refund for sale '' @ sl_sale_number sale @
                         (if truthy reason then '': '' @ str_or reason [] else [])),
         m_created_by = uid\<rparr>"
    using Some by (simp add: refund_item_def Let_def)
  then show ?thesis
    using sq
    by (cases "stock_quantity d pid vid")
      (auto simp: stock_quantity_update_stock credit_all_def)
qed

lemma credit_all_Cons:
  "credit_all (item # its) pid vid q = credit_all its pid vid (credit_all [item] pid vid q)"
  by (simp add: credit_all_def)

lemma stock_quantity_refund_items:
  "stock_quantity (refund_items uid saleId sale reason d its) pid vid =
     map_option (credit_all its pid vid) (stock_quantity d pid vid)"
proof (induction its arbitrary: d)
  case Nil
  show ?case by (simp add: credit_all_def option.map_ident)
next
  case (Cons item its)
  show ?case
    by (simp add: Cons.IH stock_quantity_refund_item option.map_comp comp_def
          credit_all_Cons [of item its])
qed

text \<open>Within the exact range the credits add up: from a quantity that is not negative,
  with quantities that are not negative, up to \<open>2 ^ 53\<close>.\<close>

lemma credit_all_exact:
  assumes "0 \<le> q" and "list_all (\<lambda>item. 0 \<le> si_quantity item) its"
      and "q + credited its pid vid \<le> max_exact"
  shows "credit_all its pid vid q = q + credited its pid vid"
  using assms
proof (induction its arbitrary: q)
  case Nil
  then show ?case by (simp add: credit_all_def credited_def)
next
  case (Cons item its)
  have rest0: "0 \<le> credited its pid vid"
    using Cons.prems(2) unfolding credited_def
    by (intro sum_list_nonneg) (auto simp: list_all_iff)
  show ?case
  proof (cases "si_product_id item = pid \<and> si_variant_id item = vid")
    case False
    then have "credit_all (item # its) pid vid q = credit_all its pid vid q"
        and "credited (item # its) pid vid = credited its pid vid"
      by (auto simp: credit_all_def credited_def)
    then show ?thesis
      using Cons.IH [of q] Cons.prems by simp
  next
    case True
    then have c: "credited (item # its) pid vid = si_quantity item + credited its pid vid"
      by (simp add: credited_def)
    have n0: "0 \<le> si_quantity item"
      using Cons.prems(2) by simp
    have "\<bar>q + si_quantity item\<bar> \<le> max_exact"
      using Cons.prems(1,3) n0 rest0 c by linarith
    then have step: "credit_all [item] pid vid q = q + si_quantity item"
      using True by (simp add: credit_all_def js_add_exact)
    have "credit_all its pid vid (q + si_quantity item)
        = q + si_quantity item + credited its pid vid"
      using Cons.prems n0 c by (intro Cons.IH) simp_all
    then show ?thesis
      by (simp add: credit_all_Cons [of item its] step c)
  qed
qed

lemma has_stock_refund_item:
  "has_stock (refund_item uid saleId sale reason d item) it = has_stock d it"
proof -
  have "stock_quantity (refund_item uid saleId sale reason d item) (si_product_id it)
          (si_variant_id it) = None
        \<longleftrightarrow> stock_quantity d (si_product_id it) (si_variant_id it) = None"
    by (simp add: stock_quantity_refund_item)
  then show ?thesis
    by (simp add: has_stock_def stock_quantity_def)
qed

lemma movements_refund_item:
  "\<exists>ms. stock_movements (refund_item uid saleId sale reason d item) = stock_movements d @ ms \<and>
        list_all2 (is_refund_movement saleId) ms (filter (has_stock d) [item])"
  by (cases "get_stock d (si_product_id item) (si_variant_id item)")
    (simp_all add: refund_item_def Let_def has_stock_def insert_movement_def
       is_refund_movement_def)

lemma movements_refund_items:
  "\<exists>ms. stock_movements (refund_items uid saleId sale reason d its) = stock_movements d @ ms \<and>
        list_all2 (is_refund_movement saleId) ms (filter (has_stock d) its)"
proof (induction its arbitrary: d)
  case Nil
  show ?case by simp
next
  case (Cons item its)
  let ?d1 = "refund_item uid saleId sale reason d item"
  obtain ms1 where m1: "stock_movements ?d1 = stock_movements d @ ms1"
      and r1: "list_all2 (is_refund_movement saleId) ms1 (filter (has_stock d) [item])"
    using movements_refund_item by blast
  obtain ms2 where m2: "stock_movements (refund_items uid saleId sale reason ?d1 its)
        = stock_movements ?d1 @ ms2"
      and r2: "list_all2 (is_refund_movement saleId) ms2 (filter (has_stock ?d1) its)"
    using Cons.IH by blast
  have same: "filter (has_stock ?d1) its = filter (has_stock d) its"
    by (rule filter_cong) (simp_all add: has_stock_refund_item)
  have "list_all2 (is_refund_movement saleId) (ms1 @ ms2)
          (filter (has_stock d) [item] @ filter (has_stock d) its)"
    using r1 r2 unfolding same by (rule list_all2_appendI)
  moreover have "filter (has_stock d) [item] @ filter (has_stock d) its
      = filter (has_stock d) (item # its)"
    by simp
  ultimately have "list_all2 (is_refund_movement saleId) (ms1 @ ms2)
      (filter (has_stock d) (item # its))"
    by (simp only:)
  moreover have "stock_movements (refund_items uid saleId sale reason d (item # its))
      = stock_movements d @ ms1 @ ms2"
    using m1 m2 by simp
  ultimately show ?case
    by blast
qed

lemma sales_refund_items [simp]:
  "sales (refund_items uid saleId sale reason d its) = sales d"
  by (induction its arbitrary: d)
    (simp_all add: refund_item_def Let_def update_stock_def insert_movement_def
       split: option.splits)

lemma sale_items_refund_items [simp]:
  "sale_items (refund_items uid saleId sale reason d its) = sale_items d"
  by (induction its arbitrary: d)
    (simp_all add: refund_item_def Let_def update_stock_def insert_movement_def
       split: option.splits)

lemma alerts_refund_items [simp]:
  "low_stock_alerts (refund_items uid saleId sale reason d its) = low_stock_alerts d"
  by (induction its arbitrary: d)
    (simp_all add: refund_item_def Let_def update_stock_def insert_movement_def
       split: option.splits)

lemma products_refund_items [simp]:
  "products (refund_items uid saleId sale reason d its) = products d"
  by (induction its arbitrary: d)
    (simp_all add: refund_item_def Let_def update_stock_def insert_movement_def
       split: option.splits)

lemma update_sale_fields [simp]:
  "stock (update_sale d st n saleId) = stock d"
  "stock_movements (update_sale d st n saleId) = stock_movements d"
  "sale_items (update_sale d st n saleId) = sale_items d"
  "low_stock_alerts (update_sale d st n saleId) = low_stock_alerts d"
  "products (update_sale d st n saleId) = products d"
  by (simp_all add: update_sale_def)

text \<open>What a refund of a completed sale answers and leaves behind.\<close>

lemma length_filter_full:
  "(length (filter P xs) = length xs) = (\<forall>x\<in>set xs. P x)"
proof (induction xs)
  case Nil
  show ?case by simp
next
  case (Cons x xs)
  have "length (filter P xs) \<le> length xs"
    by (rule length_filter_le)
  then have "length (filter P xs) \<noteq> Suc (length xs)"
    by arith
  then show ?case
    using Cons.IH by simp
qed

lemma find_weaken:
  assumes "find P xs = Some x" and "\<And>y. P y \<Longrightarrow> Q y"
  shows "\<exists>y. find Q xs = Some y"
proof -
  from assms(1) have "x \<in> set xs" and "P x"
    by (auto simp: find_Some_iff)
  then have "\<exists>y\<in>set xs. Q y"
    using assms(2) by blast
  then show ?thesis
    by (cases "find Q xs") (auto simp: find_None_iff)
qed

lemma find_update_sale:
  "find (\<lambda>s. sl_id s = saleId) (sales (update_sale d st n saleId)) =
     map_option (\<lambda>s. s\<lparr>sl_status := st, sl_notes := Some n\<rparr>)
       (find (\<lambda>s. sl_id s = saleId) (sales d))"
  unfolding update_sale_def by (simp, rule find_map_same) simp

text \<open>What \<^verbatim>\<open>some\<close> and \<^verbatim>\<open>filter\<close> answer, from the entries alone.\<close>

lemma names_item_eq:
  "names_item entries item =
     (if Entry_null \<in> set (takeWhile (\<lambda>e. e \<noteq> Entry_id (si_id item)) entries)
      then Inl ServerError
      else Inr (Entry_id (si_id item) \<in> set entries))"
proof (induction entries)
  case Nil
  show ?case by simp
next
  case (Cons e entries)
  then show ?case
    by (cases e) auto
qed

lemma filter_items_names:
  "filter_items (names_item entries) items =
     (if list_all (\<lambda>item. Entry_null \<notin> set (takeWhile (\<lambda>e. e \<noteq> Entry_id (si_id item)) entries))
           items
      then Inr (filter (\<lambda>item. Entry_id (si_id item) \<in> set entries) items)
      else Inl ServerError)"
  by (induction items) (simp_all add: names_item_eq)

lemma filter_items_throw:
  "filter_items (\<lambda>item. Inl ServerError) items = (if items = [] then Inr [] else Inl ServerError)"
  by (cases items) simp_all

lemma items_to_refund_eq:
  "items_to_refund ps items =
     (if matchable ps items then Inr (filter (targeted ps) items) else Inl ServerError)"
proof (cases ps)
  case PI_absent
  then show ?thesis
    by (simp add: items_to_refund_def matchable_def targeted_def)
next
  case (PI_array entries)
  show ?thesis
  proof (cases "entries = []")
    case True
    then show ?thesis
      using PI_array
      by (simp add: items_to_refund_def matchable_def targeted_def list_all_iff)
  next
    case False
    then have "targeted (PI_array entries) = (\<lambda>item. Entry_id (si_id item) \<in> set entries)"
      by (simp add: targeted_def fun_eq_iff)
    then show ?thesis
      using PI_array False by (simp add: items_to_refund_def matchable_def filter_items_names)
  qed
next
  case PI_other
  then show ?thesis
    by (simp add: items_to_refund_def matchable_def targeted_def filter_items_throw)
qed

text \<open>What a refund of a completed sale answers and leaves behind.\<close>

lemma refund_found:
  assumes "find (\<lambda>s. sl_id s = saleId \<and> sl_status s = Completed) (sales d) = Some sale"
      and "matchable (rf_partial_items r) (sale_items_of d saleId)"
  shows "refund d uid saleId r =
     (let saleItems = sale_items_of d saleId;
          itemsToRefund = filter (targeted (rf_partial_items r)) saleItems;
          isFullRefund = (length itemsToRefund = length saleItems)
      in (Inr \<lparr>refund_full = isFullRefund, refunded_items = length itemsToRefund,
               total_items = length saleItems\<rparr>,
          update_sale
            (refund_items uid saleId sale (optional_trim (rf_reason r)) d itemsToRefund)
            (if isFullRefund then Refunded else Completed)
            (str_or (sl_notes sale) [] @ [CHR 0x0A] @ ''Refund: '' @
               str_or (optional_trim (rf_reason r)) ''No reason provided'')
            saleId))"
  using assms by (simp add: refund_def in_transaction_def Let_def items_to_refund_eq)

lemma refund_unmatchable:
  assumes "find (\<lambda>s. sl_id s = saleId \<and> sl_status s = Completed) (sales d) = Some sale"
      and "\<not> matchable (rf_partial_items r) (sale_items_of d saleId)"
  shows "refund d uid saleId r = (Inl ServerError, d)"
  using assms by (simp add: refund_def in_transaction_def Let_def items_to_refund_eq)

lemma refund_not_found:
  assumes "find (\<lambda>s. sl_id s = saleId \<and> sl_status s = Completed) (sales d) = None"
  shows "refund d uid saleId r = (Inl SaleNotFound, d)"
  using assms by (simp add: refund_def Let_def)

lemma refund_effect:
  assumes found: "find (\<lambda>s. sl_id s = saleId \<and> sl_status s = Completed) (sales d) = Some sale"
      and ok: "matchable (rf_partial_items r) (sale_items_of d saleId)"
  shows "\<exists>resp d' ms.
      refund d uid saleId r = (Inr resp, d') \<and>
      stock_movements d' = stock_movements d @ ms \<and>
      list_all2 (is_refund_movement saleId) ms
        (filter (has_stock d) (filter (targeted (rf_partial_items r)) (sale_items_of d saleId))) \<and>
      (\<forall>pid vid. stock_quantity d' pid vid =
         map_option
           (credit_all (filter (targeted (rf_partial_items r)) (sale_items_of d saleId)) pid vid)
           (stock_quantity d pid vid)) \<and>
      refunded_items resp
        = length (filter (targeted (rf_partial_items r)) (sale_items_of d saleId)) \<and>
      refund_full resp = (\<forall>item\<in>set (sale_items_of d saleId). targeted (rf_partial_items r) item) \<and>
      sale_items d' = sale_items d \<and>
      sales d' = sales (update_sale d (if refund_full resp then Refunded else Completed)
                   (str_or (sl_notes sale) [] @ [CHR 0x0A] @ ''Refund: '' @
                      str_or (optional_trim (rf_reason r)) ''No reason provided'') saleId)"
proof -
  let ?its = "filter (targeted (rf_partial_items r)) (sale_items_of d saleId)"
  let ?d1 = "refund_items uid saleId sale (optional_trim (rf_reason r)) d ?its"
  obtain ms where ms: "stock_movements ?d1 = stock_movements d @ ms"
      and rel: "list_all2 (is_refund_movement saleId) ms (filter (has_stock d) ?its)"
    using movements_refund_items by blast
  have q: "\<And>st n pid vid. stock_quantity (update_sale ?d1 st n saleId) pid vid =
      map_option (credit_all ?its pid vid) (stock_quantity d pid vid)"
    using stock_quantity_refund_items [of uid saleId sale "optional_trim (rf_reason r)" d ?its]
    by (simp add: stock_quantity_def get_stock_def)
  show ?thesis
    unfolding refund_found [OF found ok] Let_def
    using ms rel q by (simp add: update_sale_def length_filter_full)
qed

subsection \<open>Refunds\<close>

lemma ex_sold_found:
  "find (\<lambda>s. sl_id s = 1 \<and> sl_status s = Completed) (sales (ex_sold_db qa)) =
     Some \<lparr>sl_id = 1, sl_sale_number = ''S1'', sl_total_amount = 12, sl_tax_amount = 0,
           sl_discount_amount = 0, sl_payment_method = ''cash'', sl_status = Completed,
           sl_cashier_id = 7, sl_customer_name = None, sl_notes = None\<rparr>"
  by (simp add: ex_sold_db_def ex_db_def)

lemma ex_sold_items:
  "sale_items_of (ex_sold_db qa) 1 =
     [\<lparr>si_id = 1, si_sale_id = 1, si_product_id = 1, si_variant_id = None,
       si_quantity = 4, si_unit_price = 2, si_total_price = 8, si_discount_amount = 0\<rparr>,
      \<lparr>si_id = 2, si_sale_id = 1, si_product_id = 3, si_variant_id = None,
       si_quantity = 2, si_unit_price = 2, si_total_price = 4, si_discount_amount = 0\<rparr>]"
  by (simp add: ex_sold_db_def ex_db_def sale_items_of_def)

text \<open>The full refund of sale 1 with \<open>qa\<close> units of product 1 in stock.\<close>

lemma ex_sold_refund_all:
  "refund (ex_sold_db qa) 7 1 (ex_refund PI_absent) =
     (Inr \<lparr>refund_full = True, refunded_items = 2, total_items = 2\<rparr>,
      (ex_sold_db qa)
        \<lparr>stock := [\<lparr>s_product_id = 1, s_variant_id = None, s_quantity = js_add qa 4,
                     s_updated_by = Some 7\<rparr>,
                    \<lparr>s_product_id = 2, s_variant_id = None, s_quantity = 0,
                     s_updated_by = None\<rparr>],
         stock_movements :=
           [\<lparr>m_product_id = 1, m_variant_id = None, m_movement_type = M_return,
             m_quantity_change = 4, m_quantity_before = qa, m_quantity_after = js_add qa 4,
             m_reference_id = Some 1, m_reference_type = Some ''refund'',
             m_notes = Some ''Refund for sale S1'', m_created_by = 7\<rparr>],
         sales := [\<lparr>sl_id = 1, sl_sale_number = ''S1'', sl_total_amount = 12, sl_tax_amount = 0,
                    sl_discount_amount = 0, sl_payment_method = ''cash'', sl_status = Refunded,
                    sl_cashier_id = 7, sl_customer_name = None,
                    sl_notes = Some (CHR 0x0A # ''Refund: No reason provided'')\<rparr>]\<rparr>)"
proof -
  have ok: "matchable (rf_partial_items (ex_refund PI_absent)) (sale_items_of (ex_sold_db qa) 1)"
    by (simp add: matchable_def ex_refund_def)
  show ?thesis
    unfolding refund_found [OF ex_sold_found ok] Let_def ex_sold_items
    by (simp add: ex_sold_db_def ex_db_def ex_refund_def targeted_def optional_trim_def
          refund_item_def get_stock_def stock_matches_def update_stock_def insert_movement_def
          update_sale_def truthy_def str_or_def Let_def)
qed

text \<open>The stock of product 1 and the movements after the big sale and after its refund.\<close>

lemma ex_big_tables:
  "stock_quantity (run_requests (ex_db 0 0) ex_big_sale) 1 None = Some 36028797018963968"
  "stock_quantity (run_requests (ex_db 0 0) ex_big_refund) 1 None = Some 36028797018963968"
  "map m_movement_type (stock_movements (run_requests (ex_db 0 0) ex_big_refund))
     = [M_adjustment, M_sale, M_return]"
  "map m_quantity_change (stock_movements (run_requests (ex_db 0 0) ex_big_refund))
     = [36028797018963976, - 4, 4]"
  "map m_quantity_after (stock_movements (run_requests (ex_db 0 0) ex_big_refund))
     = [36028797018963976, 36028797018963968, 36028797018963968]"
  by (simp_all add: run_requests_def ex_big_refund_def ex_big_sale_def stock_quantity_def
        ex_db_def ex_adjust_def ex_line_def ex_sale_def ex_refund_def
        adjust_def in_transaction_def adjust_writes_def
        adjust_alerts_def createSale_def createSale_body_def write_sale_item_def sale_alerts_def
        refund_def refund_item_def items_to_refund_def sale_items_of_def update_sale_def
        get_active_product_def get_stock_def stock_matches_def update_stock_def
        insert_movement_def get_active_alert_def alert_matches_def insert_alert_def
        resolve_alerts_def or_null_def str_or_null_def str_or_def truthy_def optional_trim_def
        next_id_def Let_def js_add_def js_sub_def js_num_examples)

text \<open>
  C7, as stated: a target item of a refund whose stock row is absent makes the refund
  fail, and every target item is credited its quantity. Neither holds. Item 2 of sale 1
  is for product 3, which has no stock row: the full refund of the sale answers success,
  counts two refunded items, and writes the one movement of item 1. And after the stock
  of product 1 was set to 36028797018963976 and 4 units of it were sold, the stock row
  holds 36028797018963968 (\<open>2 ^ 55\<close>); the refund of the sale writes its return movement
  with change 4, and the stock row still holds 36028797018963968.
\<close>

theorem refund_absent_stock_counterexample:
  "get_stock (ex_sold_db 6) 3 None = None \<and>
   map si_product_id (filter (targeted PI_absent) (sale_items_of (ex_sold_db 6) 1)) = [1, 3] \<and>
   fst (refund (ex_sold_db 6) 7 1 (ex_refund PI_absent)) =
     Inr \<lparr>refund_full = True, refunded_items = 2, total_items = 2\<rparr> \<and>
   map m_product_id (stock_movements (snd (refund (ex_sold_db 6) 7 1 (ex_refund PI_absent)))) = [1] \<and>
   stock_quantity (run_requests (ex_db 0 0) ex_big_sale) 1 None = Some 36028797018963968 \<and>
   stock_quantity (run_requests (ex_db 0 0) ex_big_refund) 1 None = Some 36028797018963968 \<and>
   map m_quantity_change (stock_movements (run_requests (ex_db 0 0) ex_big_refund))
     = [36028797018963976, - 4, 4]"
  unfolding ex_sold_refund_all ex_sold_items ex_big_tables
  by (simp add: ex_sold_db_def ex_db_def get_stock_def stock_matches_def targeted_def)

text \<open>
  C7, amended. A refund of a completed sale whose \<^verbatim>\<open>partial_items\<close> can be matched
  against the items of the sale succeeds. For every target item that has a stock row it
  writes exactly one movement, in the order of the items: of kind return, with the
  item's quantity as change, the sum of before and quantity (as a JavaScript number) as
  after, the sale as reference id and \<^verbatim>\<open>refund\<close> as reference type; and every key's
  stock row gets the quantities of the target items of that key added one after the
  other as JavaScript numbers, which is the exact sum when no quantity is negative and
  the sum stays within \<open>2 ^ 53\<close>. A target item with no stock row gets no movement and
  no credit, and the refund still succeeds and counts it among the refunded items.
\<close>

theorem refund_returns_stocked_items:
  assumes "find (\<lambda>s. sl_id s = saleId \<and> sl_status s = Completed) (sales d) = Some sale"
      and "matchable (rf_partial_items r) (sale_items_of d saleId)"
  shows "\<exists>resp d' ms.
      refund d uid saleId r = (Inr resp, d') \<and>
      stock_movements d' = stock_movements d @ ms \<and>
      list_all2 (is_refund_movement saleId) ms
        (filter (has_stock d) (filter (targeted (rf_partial_items r)) (sale_items_of d saleId))) \<and>
      (\<forall>pid vid. stock_quantity d' pid vid =
         map_option
           (credit_all (filter (targeted (rf_partial_items r)) (sale_items_of d saleId)) pid vid)
           (stock_quantity d pid vid)) \<and>
      (\<forall>pid vid q.
         stock_quantity d pid vid = Some q \<and> 0 \<le> q \<and>
         list_all (\<lambda>item. 0 \<le> si_quantity item)
           (filter (targeted (rf_partial_items r)) (sale_items_of d saleId)) \<and>
         q + credited (filter (targeted (rf_partial_items r)) (sale_items_of d saleId)) pid vid
           \<le> max_exact
         \<longrightarrow> stock_quantity d' pid vid =
               Some (q + credited (filter (targeted (rf_partial_items r)) (sale_items_of d saleId))
                           pid vid)) \<and>
      refunded_items resp
        = length (filter (targeted (rf_partial_items r)) (sale_items_of d saleId))"
proof -
  let ?its = "filter (targeted (rf_partial_items r)) (sale_items_of d saleId)"
  from refund_effect [OF assms, of uid] obtain resp d' ms where
      a: "refund d uid saleId r = (Inr resp, d')"
         "stock_movements d' = stock_movements d @ ms"
         "list_all2 (is_refund_movement saleId) ms (filter (has_stock d) ?its)"
         "refunded_items resp = length ?its"
      and q: "\<forall>pid vid. stock_quantity d' pid vid =
                map_option (credit_all ?its pid vid) (stock_quantity d pid vid)"
    by blast
  have "\<forall>pid vid q.
      stock_quantity d pid vid = Some q \<and> 0 \<le> q \<and>
      list_all (\<lambda>item. 0 \<le> si_quantity item) ?its \<and> q + credited ?its pid vid \<le> max_exact
      \<longrightarrow> stock_quantity d' pid vid = Some (q + credited ?its pid vid)"
    using q by (simp add: credit_all_exact)
  with a q show ?thesis
    by blast
qed

theorem refund_returns_stocked_items_witness:
  "find (\<lambda>s. sl_id s = 1 \<and> sl_status s = Completed) (sales (ex_sold_db 6)) \<noteq> None \<and>
   matchable (rf_partial_items (ex_refund PI_absent)) (sale_items_of (ex_sold_db 6) 1) \<and>
   (\<exists>resp d' m.
      refund (ex_sold_db 6) 7 1 (ex_refund PI_absent) = (Inr resp, d') \<and>
      stock_movements d' = [m] \<and>
      m_product_id m = 1 \<and> m_movement_type m = M_return \<and> m_quantity_change m = 4 \<and>
      m_reference_id m = Some 1 \<and> m_reference_type m = Some ''refund'' \<and>
      stock_quantity d' 1 None = Some 10 \<and>
      stock_quantity d' 3 None = None \<and>
      refunded_items resp = 2)"
proof -
  let ?d = "ex_sold_db 6" and ?r = "ex_refund PI_absent"
  let ?item1 = "\<lparr>si_id = 1, si_sale_id = 1, si_product_id = 1, si_variant_id = None,
       si_quantity = 4, si_unit_price = 2, si_total_price = 8, si_discount_amount = 0\<rparr>"
  have ok: "matchable (rf_partial_items ?r) (sale_items_of ?d 1)"
    by (simp add: matchable_def ex_refund_def)
  have its: "filter (targeted (rf_partial_items ?r)) (sale_items_of ?d 1) = sale_items_of ?d 1"
    by (simp add: targeted_def ex_refund_def)
  have stocked: "filter (has_stock ?d) (sale_items_of ?d 1) = [?item1]"
    unfolding ex_sold_items
    by (simp add: has_stock_def get_stock_def stock_matches_def ex_sold_db_def ex_db_def)
  have facts: "stock_quantity ?d 1 None = Some 6" "stock_quantity ?d 3 None = None"
      "credited (sale_items_of ?d 1) 1 None = 4" "stock_movements ?d = []"
      "list_all (\<lambda>item. 0 \<le> si_quantity item) (sale_items_of ?d 1)"
      "length (sale_items_of ?d 1) = 2"
    unfolding ex_sold_items
    by (simp_all add: stock_quantity_def get_stock_def stock_matches_def ex_sold_db_def
          ex_db_def credited_def)
  from refund_returns_stocked_items [OF ex_sold_found ok, of 7]
  obtain resp d' ms where
      a1: "refund ?d 7 1 ?r = (Inr resp, d')"
      and a2: "stock_movements d' = stock_movements ?d @ ms"
      and a3: "list_all2 (is_refund_movement 1) ms (filter (has_stock ?d) (sale_items_of ?d 1))"
      and a4: "\<forall>pid vid. stock_quantity d' pid vid =
                 map_option (credit_all (sale_items_of ?d 1) pid vid) (stock_quantity ?d pid vid)"
      and a5: "\<forall>pid vid q.
                 stock_quantity ?d pid vid = Some q \<and> 0 \<le> q \<and>
                 list_all (\<lambda>item. 0 \<le> si_quantity item) (sale_items_of ?d 1) \<and>
                 q + credited (sale_items_of ?d 1) pid vid \<le> max_exact
                 \<longrightarrow> stock_quantity d' pid vid = Some (q + credited (sale_items_of ?d 1) pid vid)"
      and a6: "refunded_items resp = length (sale_items_of ?d 1)"
    unfolding its by blast
  from a3 obtain m where m: "ms = [m]" and im: "is_refund_movement 1 m ?item1"
    unfolding stocked by (auto simp: list_all2_Cons2)
  have "stock_quantity d' 1 None = Some (6 + credited (sale_items_of ?d 1) 1 None)"
    using a5 facts by (intro a5 [rule_format]) (simp add: max_exact_def)
  then have q1: "stock_quantity d' 1 None = Some 10"
    by (simp add: facts)
  have q3: "stock_quantity d' 3 None = None"
    using a4 facts by simp
  have n: "refunded_items resp = 2"
    using a6 facts by simp
  have "stock_movements d' = [m]"
    using a2 m facts by simp
  then show ?thesis
    using a1 im q1 q3 n ex_sold_found ok by (auto simp: is_refund_movement_def)
qed

text \<open>A refund that is served found its sale completed and could match the request.\<close>

lemma refund_served:
  assumes "refund d uid saleId r = (Inr resp, d')"
  shows "\<exists>sale. find (\<lambda>s. sl_id s = saleId \<and> sl_status s = Completed) (sales d) = Some sale"
    and "matchable (rf_partial_items r) (sale_items_of d saleId)"
proof -
  show found: "\<exists>sale. find (\<lambda>s. sl_id s = saleId \<and> sl_status s = Completed) (sales d) = Some sale"
    using assms refund_not_found [of saleId d uid r]
    by (cases "find (\<lambda>s. sl_id s = saleId \<and> sl_status s = Completed) (sales d)") auto
  show "matchable (rf_partial_items r) (sale_items_of d saleId)"
    using assms found refund_unmatchable [of saleId d _ r uid] by fastforce
qed

text \<open>
  C8. A refund that is served leaves the sale with status refunded if and only if the
  request targets every item of the sale (it gives no \<^verbatim>\<open>partial_items\<close>, or its
  \<^verbatim>\<open>partial_items\<close> name the id of every item); otherwise the status is completed. In
  both cases the notes of the sale are its former notes followed by a line recording
  the refund with the trimmed reason.
\<close>

theorem refund_status_iff_all_targeted:
  assumes "refund d uid saleId r = (Inr resp, d')"
  shows "\<exists>sale s'.
      find (\<lambda>s. sl_id s = saleId \<and> sl_status s = Completed) (sales d) = Some sale \<and>
      find (\<lambda>s. sl_id s = saleId) (sales d') = Some s' \<and>
      (sl_status s' = Refunded \<longleftrightarrow>
         (\<forall>item\<in>set (sale_items_of d saleId). targeted (rf_partial_items r) item)) \<and>
      (refund_full resp \<longleftrightarrow>
         (\<forall>item\<in>set (sale_items_of d saleId). targeted (rf_partial_items r) item)) \<and>
      (sl_status s' = Refunded \<or> sl_status s' = Completed) \<and>
      sl_notes s' = Some (str_or (sl_notes sale) [] @ [CHR 0x0A] @ ''Refund: '' @
                          str_or (map_option trim (rf_reason r)) ''No reason provided'')"
proof -
  let ?all = "\<forall>item\<in>set (sale_items_of d saleId). targeted (rf_partial_items r) item"
  obtain sale where found:
      "find (\<lambda>s. sl_id s = saleId \<and> sl_status s = Completed) (sales d) = Some sale"
    using refund_served(1) [OF assms] by blast
  have ok: "matchable (rf_partial_items r) (sale_items_of d saleId)"
    using refund_served(2) [OF assms] .
  let ?notes = "str_or (sl_notes sale) [] @ [CHR 0x0A] @ ''Refund: '' @
                  str_or (map_option trim (rf_reason r)) ''No reason provided''"
  from refund_effect [OF found ok, of uid] assms have
      full: "refund_full resp = ?all"
      and sl: "sales d' = sales (update_sale d (if refund_full resp then Refunded else Completed)
                 ?notes saleId)"
    by (auto simp: optional_trim_def)
  obtain s0 where s0: "find (\<lambda>s. sl_id s = saleId) (sales d) = Some s0"
    using find_weaken [OF found, of "\<lambda>s. sl_id s = saleId"] by auto
  let ?s' = "s0\<lparr>sl_status := (if ?all then Refunded else Completed), sl_notes := Some ?notes\<rparr>"
  have f: "find (\<lambda>s. sl_id s = saleId) (sales d') = Some ?s'"
    unfolding sl find_update_sale s0 full by simp
  have "sl_status ?s' = Refunded \<longleftrightarrow> ?all"
      "sl_status ?s' = Refunded \<or> sl_status ?s' = Completed"
      "sl_notes ?s' = Some ?notes"
    by simp_all
  with found f full show ?thesis
    by blast
qed

text \<open>The refund of item 1 alone, and the full refund with a reason between blanks.\<close>

lemma ex_sold_refund_partial:
  "refund (ex_sold_db 6) 7 1 (ex_refund (PI_array [Entry_id 1])) =
     (Inr \<lparr>refund_full = False, refunded_items = 1, total_items = 2\<rparr>,
      (ex_sold_db 6)
        \<lparr>stock := [\<lparr>s_product_id = 1, s_variant_id = None, s_quantity = 10,
                     s_updated_by = Some 7\<rparr>,
                    \<lparr>s_product_id = 2, s_variant_id = None, s_quantity = 0,
                     s_updated_by = None\<rparr>],
         stock_movements :=
           [\<lparr>m_product_id = 1, m_variant_id = None, m_movement_type = M_return,
             m_quantity_change = 4, m_quantity_before = 6, m_quantity_after = 10,
             m_reference_id = Some 1, m_reference_type = Some ''refund'',
             m_notes = Some ''Refund for sale S1'', m_created_by = 7\<rparr>],
         sales := [\<lparr>sl_id = 1, sl_sale_number = ''S1'', sl_total_amount = 12, sl_tax_amount = 0,
                    sl_discount_amount = 0, sl_payment_method = ''cash'', sl_status = Completed,
                    sl_cashier_id = 7, sl_customer_name = None,
                    sl_notes = Some (CHR 0x0A # ''Refund: No reason provided'')\<rparr>]\<rparr>)"
proof -
  have ok: "matchable (rf_partial_items (ex_refund (PI_array [Entry_id 1])))
      (sale_items_of (ex_sold_db 6) 1)"
    unfolding ex_sold_items by (simp add: matchable_def ex_refund_def)
  show ?thesis
    unfolding refund_found [OF ex_sold_found ok] Let_def ex_sold_items
    by (simp add: ex_sold_db_def ex_db_def ex_refund_def targeted_def optional_trim_def
          refund_item_def get_stock_def stock_matches_def update_stock_def insert_movement_def
          update_sale_def truthy_def str_or_def Let_def js_add_def js_num_exact max_exact_def)
qed

lemma ex_trim:
  "trim ''  late '' = ''late''"
  by (simp add: trim_def is_space_def)

theorem refund_status_iff_all_targeted_witness:
  "(\<exists>resp d' s'.
      refund (ex_sold_db 6) 7 1 (ex_refund (PI_array [Entry_id 1])) = (Inr resp, d') \<and>
      find (\<lambda>s. sl_id s = 1) (sales d') = Some s' \<and>
      \<not> refund_full resp \<and> sl_status s' = Completed \<and>
      sl_notes s' = Some (CHR 0x0A # ''Refund: No reason provided'')) \<and>
   (\<exists>resp d' s'.
      refund (ex_sold_db 6) 7 1 \<lparr>rf_reason = Some ''  late '', rf_partial_items = PI_absent\<rparr>
        = (Inr resp, d') \<and>
      find (\<lambda>s. sl_id s = 1) (sales d') = Some s' \<and>
      refund_full resp \<and> sl_status s' = Refunded \<and>
      sl_notes s' = Some (CHR 0x0A # ''Refund: late''))"
proof -
  let ?d = "ex_sold_db 6"
  let ?r1 = "ex_refund (PI_array [Entry_id 1])"
  let ?r2 = "\<lparr>rf_reason = Some ''  late '', rf_partial_items = PI_absent\<rparr>"
  let ?sale = "\<lparr>sl_id = 1, sl_sale_number = ''S1'', sl_total_amount = 12, sl_tax_amount = 0,
           sl_discount_amount = 0, sl_payment_method = ''cash'', sl_status = Completed,
           sl_cashier_id = 7, sl_customer_name = None, sl_notes = None\<rparr>"
  obtain resp1 d1 where run1: "refund ?d 7 1 ?r1 = (Inr resp1, d1)"
    using ex_sold_refund_partial by simp
  have ok2: "matchable (rf_partial_items ?r2) (sale_items_of ?d 1)"
    by (simp add: matchable_def)
  obtain resp2 d2 where run2: "refund ?d 7 1 ?r2 = (Inr resp2, d2)"
    using refund_effect [OF ex_sold_found ok2, of 7] by blast
  from refund_status_iff_all_targeted [OF run1] ex_sold_found [of 6]
  obtain s1 where
      a1: "find (\<lambda>s. sl_id s = 1) (sales d1) = Some s1"
      and a2: "sl_status s1 = Refunded \<longleftrightarrow>
                (\<forall>item\<in>set (sale_items_of ?d 1). targeted (rf_partial_items ?r1) item)"
      and a3: "refund_full resp1 \<longleftrightarrow>
                (\<forall>item\<in>set (sale_items_of ?d 1). targeted (rf_partial_items ?r1) item)"
      and a4: "sl_status s1 = Refunded \<or> sl_status s1 = Completed"
      and a5: "sl_notes s1 = Some (str_or (sl_notes ?sale) [] @ [CHR 0x0A] @ ''Refund: '' @
                             str_or (map_option trim (rf_reason ?r1)) ''No reason provided'')"
    by auto
  have not_all: "\<not> (\<forall>item\<in>set (sale_items_of ?d 1). targeted (rf_partial_items ?r1) item)"
    unfolding ex_sold_items by (simp add: targeted_def ex_refund_def)
  have c1: "\<not> refund_full resp1 \<and> sl_status s1 = Completed \<and>
      sl_notes s1 = Some (CHR 0x0A # ''Refund: No reason provided'')"
    using a2 a3 a4 a5 not_all by (auto simp: str_or_def ex_refund_def)
  from refund_status_iff_all_targeted [OF run2] ex_sold_found [of 6]
  obtain s2 where
      b1: "find (\<lambda>s. sl_id s = 1) (sales d2) = Some s2"
      and b2: "sl_status s2 = Refunded \<longleftrightarrow>
                (\<forall>item\<in>set (sale_items_of ?d 1). targeted (rf_partial_items ?r2) item)"
      and b3: "refund_full resp2 \<longleftrightarrow>
                (\<forall>item\<in>set (sale_items_of ?d 1). targeted (rf_partial_items ?r2) item)"
      and b5: "sl_notes s2 = Some (str_or (sl_notes ?sale) [] @ [CHR 0x0A] @ ''Refund: '' @
                             str_or (map_option trim (rf_reason ?r2)) ''No reason provided'')"
    by auto
  have c2: "refund_full resp2 \<and> sl_status s2 = Refunded \<and>
      sl_notes s2 = Some (CHR 0x0A # ''Refund: late'')"
    using b2 b3 b5 by (simp add: targeted_def str_or_def ex_trim)
  from run1 a1 c1 run2 b1 c2 show ?thesis
    by blast
qed

lemma still_completed_after_partial:
  assumes "find (\<lambda>s. sl_id s = saleId \<and> sl_status s = Completed) (sales d) = Some sale"
  shows "\<exists>sale'. find (\<lambda>s. sl_id s = saleId \<and> sl_status s = Completed)
                    (sales (update_sale d Completed n saleId)) = Some sale'"
proof -
  from assms have "sale \<in> set (sales d)" and "sl_id sale = saleId"
    by (auto simp: find_Some_iff)
  then have "sale\<lparr>sl_status := Completed, sl_notes := Some n\<rparr>
      \<in> set (sales (update_sale d Completed n saleId))"
    by (force simp: update_sale_def)
  then have "\<exists>s\<in>set (sales (update_sale d Completed n saleId)).
      sl_id s = saleId \<and> sl_status s = Completed"
    using \<open>sl_id sale = saleId\<close>
    by (intro bexI [of _ "sale\<lparr>sl_status := Completed, sl_notes := Some n\<rparr>"]) simp_all
  then show ?thesis
    by (cases "find (\<lambda>s. sl_id s = saleId \<and> sl_status s = Completed)
                  (sales (update_sale d Completed n saleId))")
      (auto simp: find_None_iff)
qed

lemma refund_succeeds_iff:
  "(\<exists>resp d'. refund d uid saleId r = (Inr resp, d'))
     \<longleftrightarrow> (\<exists>s\<in>set (sales d). sl_id s = saleId \<and> sl_status s = Completed) \<and>
          matchable (rf_partial_items r) (sale_items_of d saleId)"
proof (cases "find (\<lambda>s. sl_id s = saleId \<and> sl_status s = Completed) (sales d)")
  case None
  then have "refund d uid saleId r = (Inl SaleNotFound, d)"
    by (rule refund_not_found)
  moreover have "\<not> (\<exists>s\<in>set (sales d). sl_id s = saleId \<and> sl_status s = Completed)"
    using None by (simp add: find_None_iff)
  ultimately show ?thesis
    by simp
next
  case (Some sale)
  then have ex: "\<exists>s\<in>set (sales d). sl_id s = saleId \<and> sl_status s = Completed"
    by (auto simp: find_Some_iff)
  show ?thesis
  proof (cases "matchable (rf_partial_items r) (sale_items_of d saleId)")
    case True
    then have "\<exists>resp d'. refund d uid saleId r = (Inr resp, d')"
      using refund_effect [OF Some True, of uid] by blast
    with ex True show ?thesis
      by simp
  next
    case False
    then show ?thesis
      using refund_unmatchable [OF Some False, of uid] by simp
  qed
qed

text \<open>The tables after the one sale, from 10 units of product 1 and 5 of product 2.\<close>

lemma ex_one_sale_tables:
  "run_requests (ex_db 10 5) ex_one_sale =
   \<lparr>products =
      [\<lparr>p_id = 1, p_name = ''A'', p_min_stock_level = 10, p_is_active = True\<rparr>,
       \<lparr>p_id = 2, p_name = ''B'', p_min_stock_level = 0, p_is_active = True\<rparr>],
    stock =
      [\<lparr>s_product_id = 1, s_variant_id = None, s_quantity = 6, s_updated_by = Some 7\<rparr>,
       \<lparr>s_product_id = 2, s_variant_id = None, s_quantity = 4, s_updated_by = Some 7\<rparr>],
    stock_movements =
      [\<lparr>m_product_id = 1, m_variant_id = None, m_movement_type = M_sale,
        m_quantity_change = - 4, m_quantity_before = 10, m_quantity_after = 6,
        m_reference_id = Some 1, m_reference_type = Some ''sale'',
        m_notes = Some ''Sale S1'', m_created_by = 7\<rparr>,
       \<lparr>m_product_id = 2, m_variant_id = None, m_movement_type = M_sale,
        m_quantity_change = - 1, m_quantity_before = 5, m_quantity_after = 4,
        m_reference_id = Some 1, m_reference_type = Some ''sale'',
        m_notes = Some ''Sale S1'', m_created_by = 7\<rparr>],
    sales =
      [\<lparr>sl_id = 1, sl_sale_number = ''S1'', sl_total_amount = 10, sl_tax_amount = 0,
        sl_discount_amount = 0, sl_payment_method = ''cash'', sl_status = Completed,
        sl_cashier_id = 7, sl_customer_name = None, sl_notes = None\<rparr>],
    sale_items =
      [\<lparr>si_id = 1, si_sale_id = 1, si_product_id = 1, si_variant_id = None,
        si_quantity = 4, si_unit_price = 2, si_total_price = 8, si_discount_amount = 0\<rparr>,
       \<lparr>si_id = 2, si_sale_id = 1, si_product_id = 2, si_variant_id = None,
        si_quantity = 1, si_unit_price = 2, si_total_price = 2, si_discount_amount = 0\<rparr>],
    low_stock_alerts =
      [\<lparr>a_id = 1, a_product_id = 1, a_variant_id = None, a_current_stock = 6,
        a_min_stock_level = 10, a_alert_status = Active, a_acknowledged_by = None\<rparr>]\<rparr>"
  by (simp add: run_requests_def ex_one_sale_def eval_defs)

text \<open>
  C10, as stated: a refund succeeds whenever the sale is there with status completed.
  After the one sale, sale 1 is completed, and the request with
  \<^verbatim>\<open>partial_items: [null]\<close> is answered with a server error and leaves the tables as
  they were: no movement is added and the stock rows keep their quantities.
\<close>

theorem refund_null_entry_counterexample:
  "map sl_id (sales (run_requests (ex_db 10 5) ex_one_sale)) = [1] \<and>
   map sl_status (sales (run_requests (ex_db 10 5) ex_one_sale)) = [Completed] \<and>
   refund (run_requests (ex_db 10 5) ex_one_sale) 7 1 (ex_refund (PI_array [Entry_null]))
     = (Inl ServerError, run_requests (ex_db 10 5) ex_one_sale)"
proof -
  let ?d = "run_requests (ex_db 10 5) ex_one_sale"
  have found: "find (\<lambda>s. sl_id s = 1 \<and> sl_status s = Completed) (sales ?d) =
      Some \<lparr>sl_id = 1, sl_sale_number = ''S1'', sl_total_amount = 10, sl_tax_amount = 0,
        sl_discount_amount = 0, sl_payment_method = ''cash'', sl_status = Completed,
        sl_cashier_id = 7, sl_customer_name = None, sl_notes = None\<rparr>"
    unfolding ex_one_sale_tables by simp
  have "\<not> matchable (rf_partial_items (ex_refund (PI_array [Entry_null]))) (sale_items_of ?d 1)"
    unfolding ex_one_sale_tables by (simp add: matchable_def ex_refund_def sale_items_of_def)
  then have "refund ?d 7 1 (ex_refund (PI_array [Entry_null])) = (Inl ServerError, ?d)"
    by (rule refund_unmatchable [OF found])
  moreover have "map sl_id (sales ?d) = [1]" "map sl_status (sales ?d) = [Completed]"
    unfolding ex_one_sale_tables by simp_all
  ultimately show ?thesis
    by simp
qed

text \<open>
  C10, amended. A refund succeeds if and only if the sale is there with status
  completed and the \<^verbatim>\<open>partial_items\<close> of the request can be matched against the items
  of the sale without a TypeError; nothing records which items were refunded. After a
  refund that was partial (the status is still completed) the same request succeeds
  again, is partial again with the same count, writes a further return movement for
  every target item that has a stock row, and adds their quantities to the stock rows
  once more, as JavaScript numbers: the exact sum when no quantity is negative and the
  sum stays within \<open>2 ^ 53\<close>.
\<close>

theorem refund_iff_completed_and_repeats:
  "((\<exists>resp d'. refund d uid saleId r = (Inr resp, d'))
      \<longleftrightarrow> (\<exists>s\<in>set (sales d). sl_id s = saleId \<and> sl_status s = Completed) \<and>
           matchable (rf_partial_items r) (sale_items_of d saleId)) \<and>
   (\<forall>resp d1. refund d uid saleId r = (Inr resp, d1) \<and> \<not> refund_full resp \<longrightarrow>
      (\<exists>resp2 d2 ms.
         refund d1 uid saleId r = (Inr resp2, d2) \<and>
         \<not> refund_full resp2 \<and>
         refunded_items resp2 = refunded_items resp \<and>
         stock_movements d2 = stock_movements d1 @ ms \<and>
         list_all2 (is_refund_movement saleId) ms
           (filter (has_stock d)
              (filter (targeted (rf_partial_items r)) (sale_items_of d saleId))) \<and>
         (\<forall>pid vid. stock_quantity d2 pid vid =
            map_option
              (credit_all (filter (targeted (rf_partial_items r)) (sale_items_of d saleId))
                 pid vid)
              (stock_quantity d1 pid vid)) \<and>
         (\<forall>pid vid q.
            stock_quantity d1 pid vid = Some q \<and> 0 \<le> q \<and>
            list_all (\<lambda>item. 0 \<le> si_quantity item)
              (filter (targeted (rf_partial_items r)) (sale_items_of d saleId)) \<and>
            q + credited (filter (targeted (rf_partial_items r)) (sale_items_of d saleId)) pid vid
              \<le> max_exact
            \<longrightarrow> stock_quantity d2 pid vid =
                  Some (q + credited (filter (targeted (rf_partial_items r))
                                        (sale_items_of d saleId)) pid vid))))"
proof (intro conjI allI impI)
  show "(\<exists>resp d'. refund d uid saleId r = (Inr resp, d'))
      \<longleftrightarrow> (\<exists>s\<in>set (sales d). sl_id s = saleId \<and> sl_status s = Completed) \<and>
           matchable (rf_partial_items r) (sale_items_of d saleId)"
    by (rule refund_succeeds_iff)
next
  fix resp d1
  let ?its = "filter (targeted (rf_partial_items r)) (sale_items_of d saleId)"
  assume h: "refund d uid saleId r = (Inr resp, d1) \<and> \<not> refund_full resp"
  then have run: "refund d uid saleId r = (Inr resp, d1)"
    by simp
  obtain sale where found:
      "find (\<lambda>s. sl_id s = saleId \<and> sl_status s = Completed) (sales d) = Some sale"
    using refund_served(1) [OF run] by blast
  have ok: "matchable (rf_partial_items r) (sale_items_of d saleId)"
    using refund_served(2) [OF run] .
  obtain n where
      q1: "\<forall>pid vid. stock_quantity d1 pid vid =
             map_option (credit_all ?its pid vid) (stock_quantity d pid vid)"
      and c1: "refunded_items resp = length ?its"
      and f1: "refund_full resp = (\<forall>item\<in>set (sale_items_of d saleId).
                 targeted (rf_partial_items r) item)"
      and i1: "sale_items d1 = sale_items d"
      and s1: "sales d1 = sales (update_sale d (if refund_full resp then Refunded else Completed)
                 n saleId)"
    using refund_effect [OF found ok, of uid] h by auto
  have s1': "sales d1 = sales (update_sale d Completed n saleId)"
    using s1 h by simp
  obtain sale1 where found1:
      "find (\<lambda>s. sl_id s = saleId \<and> sl_status s = Completed) (sales d1) = Some sale1"
    using still_completed_after_partial [OF found, of n] unfolding s1' by blast
  have items: "sale_items_of d1 saleId = sale_items_of d saleId"
    by (simp add: sale_items_of_def i1)
  have ok1: "matchable (rf_partial_items r) (sale_items_of d1 saleId)"
    using ok by (simp add: items)
  have hs: "filter (has_stock d1) ?its = filter (has_stock d) ?its"
  proof (rule filter_cong)
    fix it :: sale_item
    have "stock_quantity d1 (si_product_id it) (si_variant_id it) = None
        \<longleftrightarrow> stock_quantity d (si_product_id it) (si_variant_id it) = None"
      using q1 by simp
    then show "has_stock d1 it = has_stock d it"
      by (simp add: has_stock_def stock_quantity_def)
  qed simp
  obtain resp2 d2 ms where
      r2: "refund d1 uid saleId r = (Inr resp2, d2)"
      and m2: "stock_movements d2 = stock_movements d1 @ ms"
      and l2: "list_all2 (is_refund_movement saleId) ms (filter (has_stock d1) ?its)"
      and q2: "\<forall>pid vid. stock_quantity d2 pid vid =
             map_option (credit_all ?its pid vid) (stock_quantity d1 pid vid)"
      and c2: "refunded_items resp2 = length ?its"
      and f2: "refund_full resp2 = (\<forall>item\<in>set (sale_items_of d saleId).
                 targeted (rf_partial_items r) item)"
    using refund_effect [OF found1 ok1, of uid] unfolding items by blast
  have e2: "\<forall>pid vid q.
      stock_quantity d1 pid vid = Some q \<and> 0 \<le> q \<and>
      list_all (\<lambda>item. 0 \<le> si_quantity item) ?its \<and> q + credited ?its pid vid \<le> max_exact
      \<longrightarrow> stock_quantity d2 pid vid = Some (q + credited ?its pid vid)"
    using q2 by (simp add: credit_all_exact)
  have "\<not> refund_full resp2"
    using f1 f2 h by simp
  moreover have "refunded_items resp2 = refunded_items resp"
    using c1 c2 by simp
  ultimately show "\<exists>resp2 d2 ms.
         refund d1 uid saleId r = (Inr resp2, d2) \<and>
         \<not> refund_full resp2 \<and>
         refunded_items resp2 = refunded_items resp \<and>
         stock_movements d2 = stock_movements d1 @ ms \<and>
         list_all2 (is_refund_movement saleId) ms (filter (has_stock d) ?its) \<and>
         (\<forall>pid vid. stock_quantity d2 pid vid =
            map_option (credit_all ?its pid vid) (stock_quantity d1 pid vid)) \<and>
         (\<forall>pid vid q.
            stock_quantity d1 pid vid = Some q \<and> 0 \<le> q \<and>
            list_all (\<lambda>item. 0 \<le> si_quantity item) ?its \<and>
            q + credited ?its pid vid \<le> max_exact
            \<longrightarrow> stock_quantity d2 pid vid = Some (q + credited ?its pid vid))"
    using r2 m2 l2 q2 e2 unfolding hs by blast
qed

theorem refund_iff_completed_and_repeats_witness:
  "\<exists>resp d1 resp2 d2 m.
      refund (ex_sold_db 6) 7 1 (ex_refund (PI_array [Entry_id 1])) = (Inr resp, d1) \<and>
      \<not> refund_full resp \<and>
      stock_quantity d1 1 None = Some 10 \<and>
      refund d1 7 1 (ex_refund (PI_array [Entry_id 1])) = (Inr resp2, d2) \<and>
      \<not> refund_full resp2 \<and>
      stock_movements d2 = stock_movements d1 @ [m] \<and>
      m_movement_type m = M_return \<and> m_quantity_change m = 4 \<and>
      stock_quantity d2 1 None = Some 14"
proof -
  let ?r = "ex_refund (PI_array [Entry_id 1])" and ?d = "ex_sold_db 6"
  let ?item1 = "\<lparr>si_id = 1, si_sale_id = 1, si_product_id = 1, si_variant_id = None,
       si_quantity = 4, si_unit_price = 2, si_total_price = 8, si_discount_amount = 0\<rparr>"
  have its: "filter (targeted (rf_partial_items ?r)) (sale_items_of ?d 1) = [?item1]"
    unfolding ex_sold_items by (simp add: targeted_def ex_refund_def)
  have stocked: "filter (has_stock ?d) [?item1] = [?item1]"
    by (simp add: has_stock_def get_stock_def stock_matches_def ex_sold_db_def ex_db_def)
  have cr: "credited [?item1] 1 None = 4" "list_all (\<lambda>item. 0 \<le> si_quantity item) [?item1]"
    by (simp_all add: credited_def)
  obtain resp d1 where first: "refund ?d 7 1 ?r = (Inr resp, d1)"
      and part: "\<not> refund_full resp"
      and q1: "stock_quantity d1 1 None = Some 10"
    using ex_sold_refund_partial
    by (simp add: stock_quantity_def get_stock_def stock_matches_def)
  from refund_iff_completed_and_repeats [of ?d 7 1 ?r] first part
  obtain resp2 d2 ms where
      r2: "refund d1 7 1 ?r = (Inr resp2, d2)"
      and p2: "\<not> refund_full resp2"
      and m2: "stock_movements d2 = stock_movements d1 @ ms"
      and l2: "list_all2 (is_refund_movement 1) ms (filter (has_stock ?d) [?item1])"
      and e2: "\<forall>pid vid q.
                 stock_quantity d1 pid vid = Some q \<and> 0 \<le> q \<and>
                 list_all (\<lambda>item. 0 \<le> si_quantity item) [?item1] \<and>
                 q + credited [?item1] pid vid \<le> max_exact
                 \<longrightarrow> stock_quantity d2 pid vid = Some (q + credited [?item1] pid vid)"
    unfolding its by blast
  from l2 obtain m where m: "ms = [m]" and im: "is_refund_movement 1 m ?item1"
    unfolding stocked by (auto simp: list_all2_Cons2)
  have "stock_quantity d2 1 None = Some (10 + credited [?item1] 1 None)"
    using q1 cr by (intro e2 [rule_format]) (simp add: max_exact_def)
  then have "stock_quantity d2 1 None = Some 14"
    by (simp add: cr)
  then show ?thesis
    using first part q1 r2 p2 m2 m im by (auto simp: is_refund_movement_def)
qed

subsection \<open>Low-stock alerts\<close>

lemma alerts_update_stock [simp]:
  "low_stock_alerts (update_stock d q uid pid vid) = low_stock_alerts d"
  by (simp add: update_stock_def)

lemma alerts_insert_movement [simp]:
  "low_stock_alerts (insert_movement d m) = low_stock_alerts d"
  by (simp add: insert_movement_def)

lemma single_active_cong:
  "low_stock_alerts d' = low_stock_alerts d \<Longrightarrow> single_active d' = single_active d"
  by (simp add: single_active_def)

lemma get_active_alert_cong:
  "low_stock_alerts d' = low_stock_alerts d \<Longrightarrow>
     get_active_alert d' pid vid = get_active_alert d pid vid"
  by (simp add: get_active_alert_def)

lemma single_active_insert_alert:
  assumes "single_active d" and "get_active_alert d pid vid = None"
  shows "single_active (insert_alert d pid vid q ml)"
proof -
  have "\<forall>a\<in>set (low_stock_alerts d). \<not> alert_matches pid vid a"
    using assms(2) by (simp add: get_active_alert_def find_None_iff)
  then have "(pid, vid) \<notin> set (map (\<lambda>a. (a_product_id a, a_variant_id a))
      (filter (\<lambda>a. a_alert_status a = Active) (low_stock_alerts d)))"
    by (auto simp: alert_matches_def)
  then show ?thesis
    using assms(1) by (simp add: single_active_def insert_alert_def)
qed

lemma distinct_map_filter_sub:
  "distinct (map f (filter P xs)) \<Longrightarrow> distinct (map f (filter (\<lambda>x. P x \<and> Q x) xs))"
  by (induction xs) (auto split: if_splits)

lemma active_after_resolve:
  "filter (\<lambda>a. a_alert_status a = Active)
     (map (\<lambda>a. if alert_matches pid vid a then a\<lparr>a_alert_status := Resolved\<rparr> else a) xs)
   = filter (\<lambda>a. a_alert_status a = Active \<and> \<not> alert_matches pid vid a) xs"
  by (induction xs) (auto simp: alert_matches_def)

lemma single_active_resolve_alerts:
  "single_active d \<Longrightarrow> single_active (resolve_alerts d pid vid)"
  unfolding single_active_def resolve_alerts_def
  by (simp add: active_after_resolve distinct_map_filter_sub)

lemma single_active_adjust_alerts:
  "single_active d \<Longrightarrow> single_active (adjust_alerts d pid vid q ml)"
  by (simp add: adjust_alerts_def single_active_insert_alert single_active_resolve_alerts
        split: option.splits)

lemma single_active_sale_alerts:
  "single_active d \<Longrightarrow> single_active (sale_alerts d pid vid q ml)"
  by (simp add: sale_alerts_def single_active_insert_alert split: option.splits)

lemma single_active_adjust_writes:
  "single_active d \<Longrightarrow> single_active (adjust_writes d uid pid vid t cq nq notes ml)"
  unfolding adjust_writes_def Let_def
  by (rule single_active_adjust_alerts) (simp add: single_active_def)

lemma single_active_adjust:
  "single_active d \<Longrightarrow> single_active (snd (adjust d uid r))"
  by (simp add: adjust_def in_transaction_def Let_def single_active_adjust_writes
        split: option.splits)

lemma single_active_bulk_adjust_item:
  "single_active (fst st) \<Longrightarrow> single_active (fst (bulk_adjust_item uid notes st a))"
  by (cases st)
    (simp add: bulk_adjust_item_def Let_def single_active_adjust_writes split: option.splits)

lemma single_active_bulk_adjust_loop:
  "single_active (fst st) \<Longrightarrow> single_active (fst (bulk_adjust_loop uid notes as st))"
  by (induction as arbitrary: st) (simp_all add: single_active_bulk_adjust_item)

lemma single_active_bulkAdjust:
  assumes "single_active d"
  shows "single_active (snd (bulkAdjust d uid r))"
proof -
  have "single_active
      (fst (bulk_adjust_loop uid (optional_trim (br_notes r)) (br_adjustments r) (d, [], [])))"
    using assms by (intro single_active_bulk_adjust_loop) simp
  then show ?thesis
    using assms
    by (cases "bulk_adjust_loop uid (optional_trim (br_notes r)) (br_adjustments r) (d, [], [])")
      (simp add: bulkAdjust_def in_transaction_def)
qed

lemma single_active_write_sale_item:
  "single_active d \<Longrightarrow> single_active (write_sale_item uid saleId saleNumber d item)"
  unfolding write_sale_item_def Let_def
  by (rule single_active_sale_alerts) (simp add: single_active_def)

lemma single_active_write_sale_items:
  "single_active d \<Longrightarrow> single_active (write_sale_items uid saleId saleNumber d items)"
  by (induction items arbitrary: d) (simp_all add: single_active_write_sale_item)

lemma single_active_createSale:
  assumes "single_active d"
  shows "single_active (snd (createSale d uid saleNumber r))"
proof (cases "createSale_body uid saleNumber r d")
  case (Inl a)
  then show ?thesis
    using assms by (cases a) (simp add: createSale_def in_transaction_def)
next
  case (Inr b)
  obtain resp d' where b: "b = (resp, d')"
    by (cases b)
  from Inr b obtain vs saleRow where "d' = write_sale_items uid
      (next_id (map sl_id (sales d))) saleNumber (d\<lparr>sales := sales d @ [saleRow]\<rparr>) vs"
    by (auto simp: createSale_body_def Let_def split: sum.splits prod.splits if_splits)
  moreover have "single_active (d\<lparr>sales := sales d @ [saleRow]\<rparr>)" for saleRow
    using assms by (simp add: single_active_def)
  ultimately have "single_active d'"
    by (simp add: single_active_write_sale_items)
  then show ?thesis
    using assms Inr b by (simp add: createSale_def in_transaction_def)
qed

lemma single_active_refund:
  assumes "single_active d"
  shows "single_active (snd (refund d uid saleId r))"
proof (cases "find (\<lambda>s. sl_id s = saleId \<and> sl_status s = Completed) (sales d)")
  case None
  then show ?thesis
    using assms by (simp add: refund_not_found)
next
  case (Some sale)
  show ?thesis
  proof (cases "matchable (rf_partial_items r) (sale_items_of d saleId)")
    case True
    show ?thesis
      using assms by (simp add: refund_found [OF Some True] Let_def single_active_def)
  next
    case False
    show ?thesis
      using assms by (simp add: refund_unmatchable [OF Some False])
  qed
qed

lemma active_after_acknowledge:
  "filter (\<lambda>a. a_alert_status a = Active)
     (map (\<lambda>a. if a_id a = alertId
               then a\<lparr>a_alert_status := Acknowledged, a_acknowledged_by := Some uid\<rparr>
               else a) xs)
   = filter (\<lambda>a. a_alert_status a = Active \<and> a_id a \<noteq> alertId) xs"
  by (induction xs) auto

lemma single_active_acknowledge:
  "single_active d \<Longrightarrow> single_active (snd (acknowledge d uid alertId))"
  by (simp add: acknowledge_def single_active_def active_after_acknowledge
        distinct_map_filter_sub split: option.splits)

lemma single_active_run_request:
  "single_active d \<Longrightarrow> single_active (run_request d q)"
  by (cases q)
    (simp_all add: single_active_adjust single_active_bulkAdjust single_active_createSale
       single_active_refund single_active_acknowledge)

lemma single_active_run_trace:
  "single_active d \<Longrightarrow> list_all single_active (run_trace d qs)"
  by (induction qs arbitrary: d) (simp_all add: single_active_run_request)

lemma get_active_alert_insert_alert:
  "get_active_alert d pid vid = None \<Longrightarrow>
     get_active_alert (insert_alert d pid vid q ml) pid vid \<noteq> None"
proof -
  have "alert_matches pid vid
      \<lparr>a_id = next_id (map a_id (low_stock_alerts d)), a_product_id = pid,
       a_variant_id = vid, a_current_stock = q, a_min_stock_level = ml,
       a_alert_status = Active, a_acknowledged_by = None\<rparr>"
    by (simp add: alert_matches_def)
  then have "\<exists>a\<in>set (low_stock_alerts (insert_alert d pid vid q ml)). alert_matches pid vid a"
    by (simp add: insert_alert_def)
  then show ?thesis
    unfolding get_active_alert_def find_None_iff by blast
qed

lemma resolve_alerts_idem:
  "resolve_alerts (resolve_alerts d pid vid) pid vid = resolve_alerts d pid vid"
  by (simp add: resolve_alerts_def alert_matches_def comp_def)

lemma adjust_alerts_idem:
  "adjust_alerts (adjust_alerts d pid vid q ml) pid vid q ml = adjust_alerts d pid vid q ml"
proof (cases "q \<le> ml")
  case True
  show ?thesis
  proof (cases "get_active_alert d pid vid")
    case None
    with True get_active_alert_insert_alert [OF None, of q ml] show ?thesis
      by (auto simp: adjust_alerts_def)
  next
    case (Some a)
    with True show ?thesis
      by (simp add: adjust_alerts_def)
  qed
next
  case False
  then show ?thesis
    by (simp add: adjust_alerts_def resolve_alerts_idem)
qed

lemma sale_alerts_idem:
  "sale_alerts (sale_alerts d pid vid q ml) pid vid q ml = sale_alerts d pid vid q ml"
proof (cases "q \<le> ml \<and> get_active_alert d pid vid = None")
  case True
  with get_active_alert_insert_alert [of d pid vid q ml] show ?thesis
    by (auto simp: sale_alerts_def)
next
  case False
  then show ?thesis
    by (auto simp: sale_alerts_def split: option.splits)
qed

lemma length_alerts_when_active:
  assumes "get_active_alert d pid vid \<noteq> None"
  shows "length (low_stock_alerts (adjust_alerts d pid vid q ml)) = length (low_stock_alerts d)"
    and "sale_alerts d pid vid q ml = d"
  using assms
  by (auto simp: adjust_alerts_def sale_alerts_def resolve_alerts_def split: option.splits)

text \<open>
  C6. If no key has two active alerts, then after every request of any sequence of
  requests (adjustments, bulk adjustments, sales, refunds, acknowledgements) no key has
  two active alerts. The alert blocks of the routes add no row while an active alert
  exists for the key, and running a block a second time with the same quantity and
  minimum level changes nothing: no further alert row appears.
\<close>

theorem single_active_alert_kept:
  "(single_active d \<longrightarrow> list_all single_active (run_trace d qs)) \<and>
   (get_active_alert d pid vid \<noteq> None \<longrightarrow>
      length (low_stock_alerts (adjust_alerts d pid vid q ml)) = length (low_stock_alerts d) \<and>
      sale_alerts d pid vid q ml = d) \<and>
   adjust_alerts (adjust_alerts d pid vid q ml) pid vid q ml = adjust_alerts d pid vid q ml \<and>
   sale_alerts (sale_alerts d pid vid q ml) pid vid q ml = sale_alerts d pid vid q ml"
  by (simp add: single_active_run_trace length_alerts_when_active adjust_alerts_idem
        sale_alerts_idem)

theorem single_active_alert_kept_witness:
  "single_active ex_alert_db \<and>
   get_active_alert ex_alert_db 1 None \<noteq> None \<and>
   list_all single_active
     (run_trace ex_alert_db [Adjust 7 (ex_adjust Adj_out 2), Adjust 7 (ex_adjust Adj_out 1)]) \<and>
   length (low_stock_alerts (adjust_alerts ex_alert_db 1 None 3 10)) = 1 \<and>
   sale_alerts ex_alert_db 1 None 3 10 = ex_alert_db"
proof -
  have h1: "single_active ex_alert_db"
    by (simp add: ex_alert_db_def ex_db_def single_active_def)
  have h2: "get_active_alert ex_alert_db 1 None \<noteq> None"
    by (simp add: ex_alert_db_def ex_db_def get_active_alert_def alert_matches_def)
  have n: "length (low_stock_alerts ex_alert_db) = 1"
    by (simp add: ex_alert_db_def ex_db_def)
  note t = single_active_alert_kept
    [of ex_alert_db "[Adjust 7 (ex_adjust Adj_out 2), Adjust 7 (ex_adjust Adj_out 1)]" 1 None 3 10]
  from t h1 h2 n show ?thesis
    by simp
qed

subsection \<open>Quantities stay non-negative\<close>

lemma stock_nonneg_cong:
  "stock d' = stock d \<Longrightarrow> stock_nonneg d' = stock_nonneg d"
  by (simp add: stock_nonneg_def)

lemma stock_nonneg_update_stock:
  "stock_nonneg d \<Longrightarrow> 0 \<le> q \<Longrightarrow> stock_nonneg (update_stock d q uid pid vid)"
  by (auto simp: stock_nonneg_def update_stock_def list_all_iff)

lemma stock_insert_movement [simp]:
  "stock (insert_movement d m) = stock d"
  by (simp add: insert_movement_def)

lemma stock_sale_alerts [simp]:
  "stock (sale_alerts d pid vid q ml) = stock d"
  by (simp add: sale_alerts_def insert_alert_def split: option.splits)

lemma stock_nonneg_adjust_writes:
  assumes "stock_nonneg d" and "0 \<le> nq"
  shows "stock_nonneg (adjust_writes d uid pid vid t cq nq notes ml)"
proof -
  have "stock (adjust_writes d uid pid vid t cq nq notes ml) = stock (update_stock d nq uid pid vid)"
    by (simp add: adjust_writes_def Let_def)
  then show ?thesis
    using stock_nonneg_update_stock [OF assms] by (simp add: stock_nonneg_def)
qed

lemma calc_out_nonneg:
  "0 \<le> calc_new_quantity Adj_out cq q"
  by simp

lemma stock_nonneg_adjust_out:
  assumes "stock_nonneg d" and "ar_adjustment_type r = Adj_out"
  shows "stock_nonneg (snd (adjust d uid r))"
  using assms
  by (simp add: adjust_def in_transaction_def Let_def stock_nonneg_adjust_writes
        split: option.splits)

lemma stock_nonneg_bulk_adjust_item:
  assumes "stock_nonneg (fst st)" and "bi_adjustment_type a = Adj_out"
  shows "stock_nonneg (fst (bulk_adjust_item uid notes st a))"
  using assms
  by (cases st)
    (simp add: bulk_adjust_item_def Let_def stock_nonneg_adjust_writes split: option.splits)

lemma stock_nonneg_bulk_adjust_loop:
  assumes "stock_nonneg (fst st)" and "list_all (\<lambda>a. bi_adjustment_type a = Adj_out) as"
  shows "stock_nonneg (fst (bulk_adjust_loop uid notes as st))"
  using assms
  by (induction as arbitrary: st) (simp_all add: stock_nonneg_bulk_adjust_item)

lemma stock_nonneg_bulkAdjust_out:
  assumes "stock_nonneg d" and "list_all (\<lambda>a. bi_adjustment_type a = Adj_out) (br_adjustments r)"
  shows "stock_nonneg (snd (bulkAdjust d uid r))"
proof -
  have "stock_nonneg
      (fst (bulk_adjust_loop uid (optional_trim (br_notes r)) (br_adjustments r) (d, [], [])))"
    using assms by (intro stock_nonneg_bulk_adjust_loop) simp_all
  then show ?thesis
    using assms(1)
    by (cases "bulk_adjust_loop uid (optional_trim (br_notes r)) (br_adjustments r) (d, [], [])")
      (simp add: bulkAdjust_def in_transaction_def)
qed

text \<open>Every validated line asks for no more than the quantity read for it.\<close>

lemma validate_items_covered:
  assumes "validate_items d items acc subtotal = Inr (vs, tot)"
      and "list_all (\<lambda>v. v_quantity v \<le> v_current_stock v) acc"
  shows "list_all (\<lambda>v. v_quantity v \<le> v_current_stock v) vs"
  using assms
proof (induction items arbitrary: acc subtotal)
  case Nil
  then show ?case by simp
next
  case (Cons item rest)
  from Cons.prems(1) obtain product stockRow where
      p: "get_active_product d (ln_product_id item) = Some product"
      and s: "get_stock d (ln_product_id item) (or_null (ln_variant_id item)) = Some stockRow"
      and enough: "\<not> s_quantity stockRow < ln_quantity item"
    by (auto split: option.splits if_splits)
  let ?v = "\<lparr>v_product_id = ln_product_id item, v_variant_id = or_null (ln_variant_id item),
             v_quantity = ln_quantity item, v_unit_price = ln_unit_price item,
             v_total_price = ln_quantity item * ln_unit_price item, v_product = product,
             v_current_stock = s_quantity stockRow\<rparr>"
  have step: "validate_items d rest (acc @ [?v])
      (subtotal + ln_quantity item * ln_unit_price item) = Inr (vs, tot)"
    using Cons.prems(1) p s enough by (simp add: Let_def)
  have "list_all (\<lambda>v. v_quantity v \<le> v_current_stock v) (acc @ [?v])"
    using Cons.prems(2) enough by simp
  with step show ?case
    by (rule Cons.IH)
qed

lemma stock_nonneg_write_sale_item:
  assumes "stock_nonneg d" and "v_quantity item \<le> v_current_stock item"
  shows "stock_nonneg (write_sale_item uid saleId saleNumber d item)"
proof -
  let ?d1 = "d\<lparr>sale_items := sale_items d @
      [\<lparr>si_id = next_id (map si_id (sale_items d)), si_sale_id = saleId,
        si_product_id = v_product_id item, si_variant_id = v_variant_id item,
        si_quantity = v_quantity item, si_unit_price = v_unit_price item,
        si_total_price = v_total_price item, si_discount_amount = 0\<rparr>]\<rparr>"
  have "stock_nonneg ?d1"
    using assms(1) by (simp add: stock_nonneg_def)
  then have "stock_nonneg (update_stock ?d1 (js_sub (v_current_stock item) (v_quantity item)) uid
      (v_product_id item) (v_variant_id item))"
    using assms(2) by (intro stock_nonneg_update_stock) (simp_all add: js_sub_def js_num_nonneg)
  moreover have "stock (write_sale_item uid saleId saleNumber d item) =
      stock (update_stock ?d1 (js_sub (v_current_stock item) (v_quantity item)) uid
        (v_product_id item) (v_variant_id item))"
    by (simp add: write_sale_item_def Let_def)
  ultimately show ?thesis
    by (simp add: stock_nonneg_def)
qed

lemma stock_nonneg_write_sale_items:
  assumes "stock_nonneg d" and "list_all (\<lambda>v. v_quantity v \<le> v_current_stock v) items"
  shows "stock_nonneg (write_sale_items uid saleId saleNumber d items)"
  using assms
  by (induction items arbitrary: d) (simp_all add: stock_nonneg_write_sale_item)

text \<open>The two ways the body of a sale ends.\<close>

lemma createSale_body_cases:
  "(\<exists>e. createSale_body uid saleNumber r d = Inl (e, d)) \<or>
   (\<exists>resp vs tot saleRow.
      validate_items d (sr_items r) [] 0 = Inr (vs, tot) \<and>
      saleNumber \<notin> set (map sl_sale_number (sales d)) \<and>
      createSale_body uid saleNumber r d =
        Inr (resp, write_sale_items uid (next_id (map sl_id (sales d))) saleNumber
                     (d\<lparr>sales := sales d @ [saleRow]\<rparr>) vs))"
proof (cases "validate_items d (sr_items r) [] 0")
  case (Inl e)
  then show ?thesis
    by (simp add: createSale_body_def)
next
  case (Inr b)
  obtain vs tot where b: "b = (vs, tot)"
    by (cases b)
  show ?thesis
  proof (cases "saleNumber \<in> set (map sl_sale_number (sales d))")
    case True
    then show ?thesis
      using Inr b by (simp add: createSale_body_def Let_def)
  next
    case False
    then show ?thesis
      using Inr b by (simp add: createSale_body_def Let_def) (rule exI, rule refl)
  qed
qed

lemma stock_nonneg_createSale:
  assumes "stock_nonneg d"
  shows "stock_nonneg (snd (createSale d uid saleNumber r))"
proof -
  from createSale_body_cases [of uid saleNumber r d]
  consider (fail) e where "createSale_body uid saleNumber r d = Inl (e, d)"
    | (ok) resp vs tot saleRow where
        "validate_items d (sr_items r) [] 0 = Inr (vs, tot)"
        "createSale_body uid saleNumber r d =
           Inr (resp, write_sale_items uid (next_id (map sl_id (sales d))) saleNumber
                        (d\<lparr>sales := sales d @ [saleRow]\<rparr>) vs)"
    by blast
  then show ?thesis
  proof cases
    case fail
    then show ?thesis
      using assms by (simp add: createSale_def in_transaction_def)
  next
    case ok
    have "list_all (\<lambda>v. v_quantity v \<le> v_current_stock v) vs"
      using validate_items_covered [OF ok(1)] by simp
    moreover have "stock_nonneg (d\<lparr>sales := sales d @ [saleRow]\<rparr>)"
      using assms by (simp add: stock_nonneg_def)
    ultimately have "stock_nonneg (write_sale_items uid (next_id (map sl_id (sales d)))
        saleNumber (d\<lparr>sales := sales d @ [saleRow]\<rparr>) vs)"
      by (intro stock_nonneg_write_sale_items)
    then show ?thesis
      using assms ok(2) by (simp add: createSale_def in_transaction_def)
  qed
qed

lemma stock_nonneg_run_request:
  "stock_nonneg d \<Longrightarrow> out_or_sale q \<Longrightarrow> stock_nonneg (run_request d q)"
  by (cases q)
    (simp_all add: stock_nonneg_adjust_out stock_nonneg_bulkAdjust_out stock_nonneg_createSale)

text \<open>
  C4. Starting from tables where no stock row is negative, after every request of any
  sequence of out adjustments (single or bulk) and sales, whatever quantities they ask
  for, no stock row is negative.
\<close>

theorem out_and_sale_never_negative:
  assumes "stock_nonneg d" and "list_all out_or_sale qs"
  shows "list_all stock_nonneg (run_trace d qs)"
  using assms
  by (induction qs arbitrary: d) (simp_all add: stock_nonneg_run_request)

theorem out_and_sale_never_negative_witness:
  "stock_nonneg (ex_db 3 5) \<and>
   list_all out_or_sale
     [Adjust 7 (ex_adjust Adj_out 10),
      CreateSale 7 ''S1'' (ex_sale [ex_line 2 3, ex_line 2 3]),
      BulkAdjust 7 \<lparr>br_adjustments = [ex_bulk_item 2 Adj_out 100], br_notes = None\<rparr>] \<and>
   list_all stock_nonneg
     (run_trace (ex_db 3 5)
        [Adjust 7 (ex_adjust Adj_out 10),
         CreateSale 7 ''S1'' (ex_sale [ex_line 2 3, ex_line 2 3]),
         BulkAdjust 7 \<lparr>br_adjustments = [ex_bulk_item 2 Adj_out 100], br_notes = None\<rparr>])"
proof -
  have h1: "stock_nonneg (ex_db 3 5)"
    by (simp add: ex_db_def stock_nonneg_def)
  have h2: "list_all out_or_sale
     [Adjust 7 (ex_adjust Adj_out 10),
      CreateSale 7 ''S1'' (ex_sale [ex_line 2 3, ex_line 2 3]),
      BulkAdjust 7 \<lparr>br_adjustments = [ex_bulk_item 2 Adj_out 100], br_notes = None\<rparr>]"
    by (simp add: ex_adjust_def ex_bulk_item_def)
  from h1 h2 out_and_sale_never_negative [OF h1 h2] show ?thesis
    by simp
qed

subsection \<open>A sale that does not pass its checks\<close>

lemma validate_items_line_ok:
  "line_ok d item \<Longrightarrow>
     \<exists>v. validate_items d (item # rest) acc subtotal =
           validate_items d rest (acc @ [v]) (subtotal + ln_quantity item * ln_unit_price item)"
  by (auto simp: line_ok_def Let_def split: option.splits)

lemma validate_items_line_bad:
  "\<not> line_ok d item \<Longrightarrow> \<exists>e. validate_items d (item # rest) acc subtotal = Inl e"
  by (auto simp: line_ok_def Let_def split: option.splits)

lemma validate_items_fails:
  "\<not> list_all (line_ok d) items \<Longrightarrow> \<exists>e. validate_items d items acc subtotal = Inl e"
proof (induction items arbitrary: acc subtotal)
  case Nil
  then show ?case by simp
next
  case (Cons item rest)
  show ?case
  proof (cases "line_ok d item")
    case True
    then have "\<not> list_all (line_ok d) rest"
      using Cons.prems by simp
    then show ?thesis
      using validate_items_line_ok [OF True, of rest acc subtotal] Cons.IH by metis
  next
    case False
    then show ?thesis
      by (rule validate_items_line_bad)
  qed
qed

text \<open>
  C2. When some line of a sale does not pass its checks (no active product, no stock
  row, or fewer units than asked for), on whichever line, the sale fails and the tables
  are what they were: no sale, no sale item, no movement, no quantity changed. The body
  throws with the tables still untouched, so the checks of all lines come before the
  first write. Moreover any failure of the route leaves the tables as they were.
\<close>

theorem createSale_failed_check_writes_nothing:
  "(\<not> list_all (line_ok d) (sr_items r) \<longrightarrow>
      (\<exists>e. createSale d uid saleNumber r = (Inl e, d)) \<and>
      (\<exists>e. createSale_body uid saleNumber r d = Inl (e, d))) \<and>
   (\<forall>e d'. createSale d uid saleNumber r = (Inl e, d') \<longrightarrow> d' = d)"
proof (intro conjI impI allI)
  assume bad: "\<not> list_all (line_ok d) (sr_items r)"
  then obtain e where e: "validate_items d (sr_items r) [] 0 = Inl e"
    using validate_items_fails by blast
  then show body: "\<exists>e. createSale_body uid saleNumber r d = Inl (e, d)"
    by (simp add: createSale_body_def)
  then show "\<exists>e. createSale d uid saleNumber r = (Inl e, d)"
    by (auto simp: createSale_def in_transaction_def)
next
  fix e d'
  assume "createSale d uid saleNumber r = (Inl e, d')"
  then show "d' = d"
    by (auto simp: createSale_def in_transaction_def split: if_splits sum.splits prod.splits)
qed

theorem createSale_failed_check_writes_nothing_witness:
  "\<not> list_all (line_ok (ex_db 5 0)) (sr_items (ex_sale [ex_line 1 3, ex_line 2 100])) \<and>
   createSale (ex_db 5 0) 7 ''S1'' (ex_sale [ex_line 1 3, ex_line 2 100]) =
     (Inl (InsufficientStock ''B'' 0 100), ex_db 5 0) \<and>
   stock_quantity (snd (createSale (ex_db 5 0) 7 ''S1'' (ex_sale [ex_line 1 3, ex_line 2 100])))
     1 None = Some 5"
proof -
  let ?r = "ex_sale [ex_line 1 3, ex_line 2 100]"
  have h: "\<not> list_all (line_ok (ex_db 5 0)) (sr_items ?r)"
    by (simp add: ex_sale_def ex_line_def ex_db_def line_ok_def get_active_product_def
          get_stock_def stock_matches_def or_null_def)
  from createSale_failed_check_writes_nothing [of "ex_db 5 0" ?r 7 "''S1''"] h
  obtain e where e: "createSale (ex_db 5 0) 7 ''S1'' ?r = (Inl e, ex_db 5 0)"
    by blast
  have "fst (createSale (ex_db 5 0) 7 ''S1'' ?r) = Inl (InsufficientStock ''B'' 0 100)"
    by (simp add: createSale_def in_transaction_def createSale_body_def ex_sale_def ex_line_def
          ex_db_def get_active_product_def get_stock_def stock_matches_def or_null_def Let_def)
  with e have full: "createSale (ex_db 5 0) 7 ''S1'' ?r =
      (Inl (InsufficientStock ''B'' 0 100), ex_db 5 0)"
    by simp
  have "stock_quantity (ex_db 5 0) 1 None = Some 5"
    by (simp add: ex_db_def stock_quantity_def get_stock_def stock_matches_def)
  with h full show ?thesis
    by simp
qed

subsection \<open>What a bulk adjustment reports\<close>




subsection \<open>Two requests run on the example tables\<close>

lemma ex_double_sale_tables:
  "run_requests (ex_db 0 0) ex_double_sale =
   \<lparr>products =
      [\<lparr>p_id = 1, p_name = ''A'', p_min_stock_level = 10, p_is_active = True\<rparr>,
       \<lparr>p_id = 2, p_name = ''B'', p_min_stock_level = 0, p_is_active = True\<rparr>],
    stock =
      [\<lparr>s_product_id = 1, s_variant_id = None, s_quantity = 2, s_updated_by = Some 7\<rparr>,
       \<lparr>s_product_id = 2, s_variant_id = None, s_quantity = 0, s_updated_by = None\<rparr>],
    stock_movements =
      [\<lparr>m_product_id = 1, m_variant_id = None, m_movement_type = M_in,
        m_quantity_change = 5, m_quantity_before = 0, m_quantity_after = 5,
        m_reference_id = None, m_reference_type = None, m_notes = None, m_created_by = 7\<rparr>,
       \<lparr>m_product_id = 1, m_variant_id = None, m_movement_type = M_sale,
        m_quantity_change = - 3, m_quantity_before = 5, m_quantity_after = 2,
        m_reference_id = Some 1, m_reference_type = Some ''sale'',
        m_notes = Some ''Sale S1'', m_created_by = 7\<rparr>,
       \<lparr>m_product_id = 1, m_variant_id = None, m_movement_type = M_sale,
        m_quantity_change = - 3, m_quantity_before = 5, m_quantity_after = 2,
        m_reference_id = Some 1, m_reference_type = Some ''sale'',
        m_notes = Some ''Sale S1'', m_created_by = 7\<rparr>],
    sales =
      [\<lparr>sl_id = 1, sl_sale_number = ''S1'', sl_total_amount = 12, sl_tax_amount = 0,
        sl_discount_amount = 0, sl_payment_method = ''cash'', sl_status = Completed,
        sl_cashier_id = 7, sl_customer_name = None, sl_notes = None\<rparr>],
    sale_items =
      [\<lparr>si_id = 1, si_sale_id = 1, si_product_id = 1, si_variant_id = None,
        si_quantity = 3, si_unit_price = 2, si_total_price = 6, si_discount_amount = 0\<rparr>,
       \<lparr>si_id = 2, si_sale_id = 1, si_product_id = 1, si_variant_id = None,
        si_quantity = 3, si_unit_price = 2, si_total_price = 6, si_discount_amount = 0\<rparr>],
    low_stock_alerts =
      [\<lparr>a_id = 1, a_product_id = 1, a_variant_id = None, a_current_stock = 5,
        a_min_stock_level = 10, a_alert_status = Active, a_acknowledged_by = None\<rparr>]\<rparr>"
  by (simp add: run_requests_def ex_double_sale_def eval_defs)

lemma ex_sale_refund_tables:
  "run_requests (ex_db 20 0) ex_sale_refund =
   \<lparr>products =
      [\<lparr>p_id = 1, p_name = ''A'', p_min_stock_level = 10, p_is_active = True\<rparr>,
       \<lparr>p_id = 2, p_name = ''B'', p_min_stock_level = 0, p_is_active = True\<rparr>],
    stock =
      [\<lparr>s_product_id = 1, s_variant_id = None, s_quantity = 20, s_updated_by = Some 7\<rparr>,
       \<lparr>s_product_id = 2, s_variant_id = None, s_quantity = 0, s_updated_by = None\<rparr>],
    stock_movements =
      [\<lparr>m_product_id = 1, m_variant_id = None, m_movement_type = M_sale,
        m_quantity_change = - 15, m_quantity_before = 20, m_quantity_after = 5,
        m_reference_id = Some 1, m_reference_type = Some ''sale'',
        m_notes = Some ''Sale S1'', m_created_by = 7\<rparr>,
       \<lparr>m_product_id = 1, m_variant_id = None, m_movement_type = M_return,
        m_quantity_change = 15, m_quantity_before = 5, m_quantity_after = 20,
        m_reference_id = Some 1, m_reference_type = Some ''refund'',
        m_notes = Some ''Refund for sale S1'', m_created_by = 7\<rparr>],
    sales =
      [\<lparr>sl_id = 1, sl_sale_number = ''S1'', sl_total_amount = 30, sl_tax_amount = 0,
        sl_discount_amount = 0, sl_payment_method = ''cash'', sl_status = Refunded,
        sl_cashier_id = 7, sl_customer_name = None,
        sl_notes = Some (CHR 0x0A # ''Refund: No reason provided'')\<rparr>],
    sale_items =
      [\<lparr>si_id = 1, si_sale_id = 1, si_product_id = 1, si_variant_id = None,
        si_quantity = 15, si_unit_price = 2, si_total_price = 30, si_discount_amount = 0\<rparr>],
    low_stock_alerts =
      [\<lparr>a_id = 1, a_product_id = 1, a_variant_id = None, a_current_stock = 5,
        a_min_stock_level = 10, a_alert_status = Active, a_acknowledged_by = None\<rparr>]\<rparr>"
  by (simp add: run_requests_def ex_sale_refund_def eval_defs)


subsection \<open>The ledger replayed\<close>

lemma replay_append:
  "replay (ms @ [m]) pid vid =
     replay ms pid vid + (if m_product_id m = pid \<and> m_variant_id m = vid
                          then m_quantity_change m else 0)"
  by (simp add: replay_def)

text \<open>The writes of an adjustment keep the ledger of every key, when the quantity they
  are given as current is the one the stock row holds and the recorded change is the
  exact difference; both adjustment routes read the quantity right before they write.\<close>

lemma ledger_ok_adjust_writes:
  assumes "ledger_ok d pid' vid'" and "stock_quantity d pid vid = Some cq"
      and "js_sub nq cq = nq - cq"
  shows "ledger_ok (adjust_writes d uid pid vid t cq nq notes ml) pid' vid'"
proof -
  let ?d' = "adjust_writes d uid pid vid t cq nq notes ml"
  have q: "stock_quantity ?d' pid' vid' =
      (if pid' = pid \<and> vid' = vid then Some nq else stock_quantity d pid' vid')"
  proof -
    have "stock_quantity ?d' pid' vid' = stock_quantity (update_stock d nq uid pid vid) pid' vid'"
      by (simp add: adjust_writes_def Let_def stock_quantity_def)
    then show ?thesis
      using assms(2) by (simp add: stock_quantity_update_stock)
  qed
  have r: "replay (stock_movements ?d') pid' vid' =
      replay (stock_movements d) pid' vid' + (if pid' = pid \<and> vid' = vid then nq - cq else 0)"
    using assms(3) by (auto simp: movements_adjust_writes replay_append)
  show ?thesis
    using assms(1,2) q r by (auto simp: ledger_ok_def split: option.splits)
qed

text \<open>Within the exact range an adjustment computes exactly.\<close>

lemma calc_new_quantity_exact:
  assumes "\<bar>cq\<bar> \<le> 4503599627370496" and "\<bar>n\<bar> \<le> 4503599627370496"
  shows "js_sub (calc_new_quantity t cq n) cq = calc_new_quantity t cq n - cq"
proof -
  have r: "\<bar>cq + n\<bar> \<le> max_exact" "\<bar>cq - n\<bar> \<le> max_exact" "\<bar>n - cq\<bar> \<le> max_exact"
      "\<bar>cq\<bar> \<le> max_exact" "\<bar>n\<bar> \<le> max_exact"
    using assms by (simp_all add: max_exact_def)
  show ?thesis
  proof (cases t)
    case Adj_in
    then show ?thesis
      using r by (simp add: js_add_exact js_sub_exact)
  next
    case Adj_out
    have "\<bar>max 0 (cq - n) - cq\<bar> \<le> max_exact"
      using r by (simp add: max_def)
    then show ?thesis
      using Adj_out r by (simp add: js_sub_exact)
  next
    case Adj_adjustment
    then show ?thesis
      using r by (simp add: js_sub_exact)
  qed
qed

text \<open>The body of the bulk loop reads the stock row of each item anew, so it keeps the
  ledger also when a key comes twice in one request.\<close>

lemma ledger_ok_bulk_adjust_item:
  assumes "ledger_ok d pid' vid'"
      and "\<bar>bi_quantity a\<bar> \<le> 4503599627370496"
      and "\<forall>q. stock_quantity d (bi_product_id a) (or_null (bi_variant_id a)) = Some q
             \<longrightarrow> \<bar>q\<bar> \<le> 4503599627370496"
  shows "ledger_ok (fst (bulk_adjust_item uid notes (d, results, failures) a)) pid' vid'"
proof (cases "bulk_item_ok d a")
  case False
  then show ?thesis
    using assms(1) by (simp add: bulk_adjust_item_bad)
next
  case True
  then obtain product currentStock where
      p: "get_active_product d (bi_product_id a) = Some product"
      and s: "get_stock d (bi_product_id a) (or_null (bi_variant_id a)) = Some currentStock"
    by (auto simp: bulk_item_ok_def)
  have q: "stock_quantity d (bi_product_id a) (or_null (bi_variant_id a))
      = Some (s_quantity currentStock)"
    using s by (simp add: stock_quantity_def)
  then have "\<bar>s_quantity currentStock\<bar> \<le> 4503599627370496"
    using assms(3) by simp
  then have "js_sub (calc_new_quantity (bi_adjustment_type a) (s_quantity currentStock)
        (bi_quantity a)) (s_quantity currentStock)
      = calc_new_quantity (bi_adjustment_type a) (s_quantity currentStock) (bi_quantity a)
          - s_quantity currentStock"
    using assms(2) by (intro calc_new_quantity_exact)
  from ledger_ok_adjust_writes [OF assms(1) q this]
  show ?thesis
    by (simp add: bulk_adjust_item_def p s Let_def)
qed

text \<open>
  C1. Replaying the movements does not give back the stored quantity after a sale that
  lists a key twice. From an empty ledger, 5 units of product 1 are stocked and one sale
  lists product 1 on two lines of 3 units each. Both lines pass the check against the 5
  units read before any write, both movements record before 5 and after 2, and the
  stock row holds 2 while the three changes +5, -3, -3 replay to -1.
\<close>

theorem createSale_duplicate_lines_break_replay:
  "stock_quantity (run_requests (ex_db 0 0) ex_double_sale) 1 None = Some 2 \<and>
   replay (stock_movements (run_requests (ex_db 0 0) ex_double_sale)) 1 None = - 1 \<and>
   map m_quantity_change (stock_movements (run_requests (ex_db 0 0) ex_double_sale))
     = [5, - 3, - 3] \<and>
   map m_quantity_before (stock_movements (run_requests (ex_db 0 0) ex_double_sale))
     = [0, 5, 5] \<and>
   map m_quantity_after (stock_movements (run_requests (ex_db 0 0) ex_double_sale))
     = [5, 2, 2] \<and>
   replay (stock_movements (ex_db 0 0)) 1 None = 0 \<and>
   stock_quantity (ex_db 0 0) 1 None = Some 0"
  unfolding ex_double_sale_tables
  by (simp add: stock_quantity_def get_stock_def stock_matches_def replay_def ex_db_def)

subsection \<open>Alerts after stock comes back\<close>

lemma find_map_removed:
  assumes "\<And>x. \<not> P (f x)"
  shows "find P (map (\<lambda>x. if P x then f x else x) xs) = None"
  using assms by (induction xs) simp_all

lemma get_active_alert_resolve_alerts:
  "get_active_alert (resolve_alerts d pid vid) pid vid = None"
  unfolding get_active_alert_def resolve_alerts_def
  by (simp, rule find_map_removed) (simp add: alert_matches_def)

lemma adjust_alerts_resolves:
  "ml < q \<Longrightarrow> get_active_alert (adjust_alerts d pid vid q ml) pid vid = None"
  by (simp add: adjust_alerts_def get_active_alert_resolve_alerts)

text \<open>
  C5. An active alert remains after a refund brings the quantity back above the
  minimum level. Product 1 has minimum level 10 and 20 units; a sale of 15 leaves 5 and
  opens the alert; the full refund of the sale stores 20 again, and the alert of the
  key is still active, since the refund route has no alert block.
\<close>

theorem refund_leaves_alert_active:
  "stock_quantity (run_requests (ex_db 20 0) ex_sale_refund) 1 None = Some 20 \<and>
   map_option p_min_stock_level (get_active_product (run_requests (ex_db 20 0) ex_sale_refund) 1)
     = Some 10 \<and>
   map_option a_alert_status (get_active_alert (run_requests (ex_db 20 0) ex_sale_refund) 1 None)
     = Some Active \<and>
   map m_movement_type (stock_movements (run_requests (ex_db 20 0) ex_sale_refund))
     = [M_sale, M_return]"
  unfolding ex_sale_refund_tables
  by (simp add: stock_quantity_def get_stock_def stock_matches_def get_active_product_def
        get_active_alert_def alert_matches_def)

end
